theory Spec2Isabelle
  imports Main "HOL-Library.Word" "HOL-Library.Sublist"
begin

section \<open>Bytes, strings and errors\<close>

text \<open>
  The script \<^verbatim>\<open>examples/oauth-client.py\<close> works on Python \<^verbatim>\<open>bytes\<close> and \<^verbatim>\<open>str\<close>
  values.  Bytes are 8-bit words, text is \<^typ>\<open>string\<close>.  Every exception the modelled
  code can raise is a value of \<open>error\<close>; an operation that may raise returns
  \<open>error + 'a\<close> with the exception on the left.
\<close>

type_synonym byte = "8 word"

datatype error =
    UnicodeDecodeError
  | KeyError string
  | TypeError
  | AttributeError
  | JSONDecodeError
  | ClientError string
  | Exception string

definition byte_of_char :: "char \<Rightarrow> byte" where
  "byte_of_char c = of_nat (of_char c)"

definition char_of_byte :: "byte \<Rightarrow> char" where
  "char_of_byte b = char_of (unat b)"

subsection \<open>The UTF-8 codec on the characters of \<open>string\<close>\<close>

text \<open>
  \<^verbatim>\<open>str.encode('utf-8')\<close>: a character below U+0080 is one byte, a character
  U+0080..U+00FF is the two bytes \<open>110000xx 10xxxxxx\<close>.
\<close>

definition encode_char :: "char \<Rightarrow> byte list" where
  "encode_char c =
     (let n = (of_char c :: nat) in
      if n < 128 then [of_nat n]
      else [of_nat (192 + n div 64), of_nat (128 + n mod 64)])"

definition encode_utf8 :: "string \<Rightarrow> byte list" where
  "encode_utf8 s = concat (map encode_char s)"

text \<open>
  \<^verbatim>\<open>bytes.decode('utf-8')\<close> (strict): the one-byte form and the two-byte forms of
  U+0080..U+00FF decode to their character; an ill-formed sequence raises
  \<open>UnicodeDecodeError\<close>.  A well-formed longer sequence stands for a character that
  \<^typ>\<open>string\<close> cannot hold, and is reported as undecodable as well.
\<close>

fun decode_utf8 :: "byte list \<Rightarrow> error + string" where
  "decode_utf8 [] = Inr []"
| "decode_utf8 [b] = (if unat b < 128 then Inr [char_of_byte b] else Inl UnicodeDecodeError)"
| "decode_utf8 (b # c # rest) =
     (if unat b < 128 then
        (case decode_utf8 (c # rest) of
           Inl e \<Rightarrow> Inl e
         | Inr s \<Rightarrow> Inr (char_of_byte b # s))
      else if (unat b = 194 \<or> unat b = 195) \<and> 128 \<le> unat c \<and> unat c < 192 then
        (case decode_utf8 rest of
           Inl e \<Rightarrow> Inl e
         | Inr s \<Rightarrow> Inr (char_of ((unat b - 192) * 64 + (unat c - 128)) # s))
      else Inl UnicodeDecodeError)"

text \<open>\<^verbatim>\<open>str.rstrip(chars)\<close>: drop every trailing character that occurs in \<open>chars\<close>.\<close>

definition rstrip :: "string \<Rightarrow> string \<Rightarrow> string" where
  "rstrip chars s = rev (dropWhile (\<lambda>c. c \<in> set chars) (rev s))"

subsection \<open>\<^verbatim>\<open>base64.urlsafe_b64encode\<close>\<close>

text \<open>
  The standard library encodes with the standard alphabet and \<open>=\<close> padding
  (\<^verbatim>\<open>b64encode\<close>), then translates \<open>+\<close> to \<open>-\<close> and \<open>/\<close> to \<open>_\<close>.
\<close>

definition b64_alphabet :: string where
  "b64_alphabet = ''ABCDEFGHIJKLMNOPQRSTUVWXYZabcdefghijklmnopqrstuvwxyz0123456789+/''"

definition b64_byte :: "nat \<Rightarrow> byte" where
  "b64_byte n = byte_of_char (b64_alphabet ! (n mod 64))"

definition b64_pad :: byte where
  "b64_pad = byte_of_char CHR ''=''"

fun b64encode :: "byte list \<Rightarrow> byte list" where
  "b64encode [] = []"
| "b64encode [a] =
     [b64_byte (unat a div 4), b64_byte (unat a mod 4 * 16), b64_pad, b64_pad]"
| "b64encode [a, b] =
     [b64_byte (unat a div 4), b64_byte (unat a mod 4 * 16 + unat b div 16),
      b64_byte (unat b mod 16 * 4), b64_pad]"
| "b64encode (a # b # c # rest) =
     [b64_byte (unat a div 4), b64_byte (unat a mod 4 * 16 + unat b div 16),
      b64_byte (unat b mod 16 * 4 + unat c div 64), b64_byte (unat c mod 64)]
     @ b64encode rest"

definition urlsafe_translate :: "byte \<Rightarrow> byte" where
  "urlsafe_translate b =
     (if b = byte_of_char CHR ''+'' then byte_of_char CHR ''-''
      else if b = byte_of_char CHR ''/'' then byte_of_char CHR ''_''
      else b)"

definition urlsafe_b64encode :: "byte list \<Rightarrow> byte list" where
  "urlsafe_b64encode s = map urlsafe_translate (b64encode s)"

subsection \<open>The specification's \<open>base64url_nopad\<close>\<close>

text \<open>
  The specification names the encoding \<open>base64url_nopad\<close>: base64 over the URL-safe
  alphabet, with no padding produced at all.  It is defined here on its own, to be
  compared with what the code computes (encode with padding, translate, strip).
\<close>

definition urlsafe_alphabet :: string where
  "urlsafe_alphabet = ''ABCDEFGHIJKLMNOPQRSTUVWXYZabcdefghijklmnopqrstuvwxyz0123456789-_''"

definition url_char :: "nat \<Rightarrow> char" where
  "url_char n = urlsafe_alphabet ! (n mod 64)"

fun base64url_nopad :: "byte list \<Rightarrow> string" where
  "base64url_nopad [] = []"
| "base64url_nopad [a] = [url_char (unat a div 4), url_char (unat a mod 4 * 16)]"
| "base64url_nopad [a, b] =
     [url_char (unat a div 4), url_char (unat a mod 4 * 16 + unat b div 16),
      url_char (unat b mod 16 * 4)]"
| "base64url_nopad (a # b # c # rest) =
     [url_char (unat a div 4), url_char (unat a mod 4 * 16 + unat b div 16),
      url_char (unat b mod 16 * 4 + unat c div 64), url_char (unat c mod 64)]
     @ base64url_nopad rest"

text \<open>The padding that \<^verbatim>\<open>b64encode\<close> appends to the encoding of \<open>n\<close> bytes.\<close>

definition b64_padding :: "nat \<Rightarrow> string" where
  "b64_padding n = replicate ((3 - n mod 3) mod 3) CHR ''=''"

subsection \<open>\<^verbatim>\<open>secrets.token_hex\<close>\<close>

text \<open>
  \<^verbatim>\<open>secrets.token_hex(n)\<close> is \<^verbatim>\<open>token_bytes(n).hex()\<close>: two lower-case hexadecimal
  digits for each random byte.  The bytes drawn from the operating system's random
  source are an explicit argument of every function that draws them.
\<close>

definition hex_digit :: "nat \<Rightarrow> char" where
  "hex_digit n = ''0123456789abcdef'' ! (n mod 16)"

definition hex :: "byte list \<Rightarrow> string" where
  "hex bs = concat (map (\<lambda>b. [hex_digit (unat b div 16), hex_digit (unat b mod 16)]) bs)"

section \<open>The OAuth client\<close>

datatype client_session = ClientSession

record oauth_client =
  access_token :: "string option"
  code_verifier :: "string option"
  state :: "string option"
  session :: "client_session option"

definition init_client :: oauth_client where
  "init_client = \<lparr>access_token = None, code_verifier = None, state = None, session = None\<rparr>"

text \<open>
  \<^verbatim>\<open>generate_pkce\<close>: \<open>sha256\<close> is \<^verbatim>\<open>hashlib.sha256(...).digest()\<close>, \<open>rnd\<close> the bytes
  returned by \<^verbatim>\<open>secrets.token_bytes(32)\<close>.  The result is the returned dictionary (or
  the exception raised) together with the client after the call.
\<close>

definition generate_pkce ::
  "(byte list \<Rightarrow> byte list) \<Rightarrow> byte list \<Rightarrow> oauth_client
     \<Rightarrow> (error + (string \<times> string) list) \<times> oauth_client" where
  "generate_pkce sha256 rnd self =
     (case decode_utf8 (urlsafe_b64encode rnd) of
        Inl e \<Rightarrow> (Inl e, self)
      | Inr s \<Rightarrow>
          (let verifier = rstrip ''='' s;
               self' = self\<lparr>code_verifier := Some verifier\<rparr>
           in case decode_utf8 (urlsafe_b64encode (sha256 (encode_utf8 verifier))) of
                Inl e \<Rightarrow> (Inl e, self')
              | Inr t \<Rightarrow>
                  (Inr [(''code_verifier'', verifier),
                        (''code_challenge'', rstrip ''='' t),
                        (''code_challenge_method'', ''S256'')],
                   self')))"

text \<open>\<^verbatim>\<open>generate_state\<close>: \<open>rnd\<close> is the bytes drawn by \<^verbatim>\<open>secrets.token_hex(16)\<close>.\<close>

definition generate_state :: "byte list \<Rightarrow> oauth_client \<Rightarrow> string \<times> oauth_client" where
  "generate_state rnd self =
     (let self' = self\<lparr>state := Some (hex rnd)\<rparr>
      in (the (state self'), self'))"

text \<open>
  \<^verbatim>\<open>simulate_callback\<close>: \<open>rnd\<close> is the bytes drawn by \<^verbatim>\<open>secrets.token_hex(16)\<close>.
\<close>

definition simulate_callback :: "byte list \<Rightarrow> oauth_client \<Rightarrow> string \<times> oauth_client" where
  "simulate_callback rnd self =
     (let self' = self\<lparr>access_token := Some (''mock_access_token_'' @ hex rnd)\<rparr>
      in (the (access_token self'), self'))"

section \<open>Dictionaries, JSON values and responses\<close>

text \<open>
  A parsed JSON document.  Of a number the code only needs that it is neither a string
  nor a container.  A dictionary is an association list; its keys are unique, and a key
  is looked up with \<^const>\<open>map_of\<close>.
\<close>

datatype json =
    JNull
  | JBool bool
  | JNum int
  | JStr string
  | JArr "json list"
  | JObj "(string \<times> json) list"

text \<open>\<^verbatim>\<open>d[key]\<close> on a dictionary: \<open>KeyError\<close> when the key is absent.\<close>

definition item :: "(string \<times> 'v) list \<Rightarrow> string \<Rightarrow> error + 'v" where
  "item d k = (case map_of d k of None \<Rightarrow> Inl (KeyError k) | Some v \<Rightarrow> Inr v)"

text \<open>
  \<^verbatim>\<open>v[key]\<close> with a string key on a JSON value: only a dictionary can be indexed so,
  every other value raises \<open>TypeError\<close>.
\<close>

fun subscript :: "json \<Rightarrow> string \<Rightarrow> error + json" where
  "subscript (JObj d) k = item d k"
| "subscript _ k = Inl TypeError"

text \<open>\<^verbatim>\<open>v.get(key)\<close>: \<open>None\<close> when the key is absent; only a dictionary has \<^verbatim>\<open>get\<close>.\<close>

fun dict_get :: "json \<Rightarrow> string \<Rightarrow> error + json option" where
  "dict_get (JObj d) k = Inr (map_of d k)"
| "dict_get _ k = Inl AttributeError"

fun is_JStr :: "json \<Rightarrow> bool" where
  "is_JStr (JStr _) = True"
| "is_JStr _ = False"

text \<open>
  \<^verbatim>\<open>", ".join(v)\<close>: \<open>v\<close> must be iterable and yield strings only (a string yields its
  characters, a dictionary its keys).  The joined text is only printed, so the model
  keeps whether the call raises.
\<close>

fun join_check :: "json \<Rightarrow> error + unit" where
  "join_check (JArr xs) = (if list_all is_JStr xs then Inr () else Inl TypeError)"
| "join_check (JStr _) = Inr ()"
| "join_check (JObj _) = Inr ()"
| "join_check _ = Inl TypeError"

text \<open>\<^verbatim>\<open>str(n)\<close> for a non-negative integer.\<close>

fun str_nat :: "nat \<Rightarrow> string" where
  "str_nat n =
     (if n < 10 then [''0123456789'' ! n]
      else str_nat (n div 10) @ [''0123456789'' ! (n mod 10)])"

declare str_nat.simps [simp del]

text \<open>
  The response of an \<^verbatim>\<open>aiohttp\<close> request, as far as the code reads it: the status,
  the outcome of \<^verbatim>\<open>await response.json()\<close> and of \<^verbatim>\<open>await response.text()\<close>.
  \<^verbatim>\<open>response.ok\<close> is aiohttp's: true when the status is below 400.
\<close>

record client_response =
  status :: nat
  json_body :: "error + json"
  text_body :: "error + string"

definition ok :: "client_response \<Rightarrow> bool" where
  "ok response = (status response < 400)"

text \<open>
  \<^verbatim>\<open>self.session.get(...)\<close> and \<^verbatim>\<open>self.session.post(...)\<close>: \<open>reply\<close> is what the
  network gives, a response or a raised connection error.  Without a session the
  attribute access on \<^verbatim>\<open>None\<close> raises.
\<close>

definition request :: "oauth_client \<Rightarrow> error + client_response \<Rightarrow> error + client_response" where
  "request self reply = (case session self of None \<Rightarrow> Inl AttributeError | Some _ \<Rightarrow> reply)"

section \<open>The HTTP operations of the client\<close>

definition discover_endpoints :: "oauth_client \<Rightarrow> error + client_response \<Rightarrow> error + json" where
  "discover_endpoints self reply =
     (case request self reply of
        Inl e \<Rightarrow> Inl e
      | Inr response \<Rightarrow>
          if \<not> ok response then
            Inl (Exception (''Discovery failed: '' @ str_nat (status response)))
          else
            (case json_body response of
               Inl e \<Rightarrow> Inl e
             | Inr metadata \<Rightarrow>
                 (case subscript metadata ''resource'' of
                    Inl e \<Rightarrow> Inl e
                  | Inr _ \<Rightarrow>
                      (case subscript metadata ''authorization_servers'' of
                         Inl e \<Rightarrow> Inl e
                       | Inr servers \<Rightarrow>
                           (case join_check servers of
                              Inl e \<Rightarrow> Inl e
                            | Inr _ \<Rightarrow> Inr metadata)))))"

definition get_auth_server_metadata ::
  "oauth_client \<Rightarrow> error + client_response \<Rightarrow> error + json" where
  "get_auth_server_metadata self reply =
     (case request self reply of
        Inl e \<Rightarrow> Inl e
      | Inr response \<Rightarrow>
          if \<not> ok response then
            Inl (Exception (''Auth server discovery failed: '' @ str_nat (status response)))
          else
            (case json_body response of
               Inl e \<Rightarrow> Inl e
             | Inr metadata \<Rightarrow>
                 (case subscript metadata ''issuer'' of
                    Inl e \<Rightarrow> Inl e
                  | Inr _ \<Rightarrow>
                      (case subscript metadata ''authorization_endpoint'' of
                         Inl e \<Rightarrow> Inl e
                       | Inr _ \<Rightarrow>
                           (case subscript metadata ''token_endpoint'' of
                              Inl e \<Rightarrow> Inl e
                            | Inr _ \<Rightarrow> Inr metadata)))))"

definition store_api_key ::
  "oauth_client \<Rightarrow> string \<Rightarrow> string \<Rightarrow> error + client_response \<Rightarrow> error + bool" where
  "store_api_key self api_key base_url reply =
     (case request self reply of
        Inl e \<Rightarrow> Inl e
      | Inr response \<Rightarrow>
          if status response = 401 then Inr False
          else if \<not> ok response then
            Inl (Exception (''Failed to store API key: '' @ str_nat (status response)))
          else
            (case json_body response of
               Inl e \<Rightarrow> Inl e
             | Inr result \<Rightarrow> Inr True))"

definition get_api_key_metadata ::
  "oauth_client \<Rightarrow> error + client_response \<Rightarrow> error + json option" where
  "get_api_key_metadata self reply =
     (case request self reply of
        Inl e \<Rightarrow> Inl e
      | Inr response \<Rightarrow>
          if status response = 401 then Inr None
          else if \<not> ok response then
            Inl (Exception (''Failed to get metadata: '' @ str_nat (status response)))
          else
            (case json_body response of
               Inl e \<Rightarrow> Inl e
             | Inr metadata \<Rightarrow>
                 (case subscript metadata ''hasKey'' of
                    Inl e \<Rightarrow> Inl e
                  | Inr _ \<Rightarrow>
                      (case dict_get metadata ''baseUrl'' of
                         Inl e \<Rightarrow> Inl e
                       | Inr _ \<Rightarrow>
                           (case dict_get metadata ''updatedAt'' of
                              Inl e \<Rightarrow> Inl e
                            | Inr _ \<Rightarrow> Inr (Some metadata))))))"

text \<open>
  \<^verbatim>\<open>make_mcp_request\<close>: after the 401 case and the 400 case with the body
  \<^verbatim>\<open>{"error": "No API key configured"}\<close>, the code reads the response text and returns
  it, whatever the status.
\<close>

definition mcp_result :: "client_response \<Rightarrow> error + string option" where
  "mcp_result response =
     (case text_body response of Inl e \<Rightarrow> Inl e | Inr result \<Rightarrow> Inr (Some result))"

definition make_mcp_request ::
  "oauth_client \<Rightarrow> error + client_response \<Rightarrow> error + string option" where
  "make_mcp_request self reply =
     (case request self reply of
        Inl e \<Rightarrow> Inl e
      | Inr response \<Rightarrow>
          if status response = 401 then Inr None
          else if status response = 400 then
            (case json_body response of
               Inl e \<Rightarrow> Inl e
             | Inr err \<Rightarrow>
                 (case dict_get err ''error'' of
                    Inl e \<Rightarrow> Inl e
                  | Inr v \<Rightarrow>
                      if v = Some (JStr ''No API key configured'') then Inr None
                      else mcp_result response))
          else mcp_result response)"

section \<open>The authorization URL\<close>

text \<open>
  \<^verbatim>\<open>urllib.parse.urlencode\<close> on a dictionary of strings: each key and value goes
  through \<^verbatim>\<open>quote_plus\<close>, the pairs are joined by \<open>&\<close>.  \<^verbatim>\<open>quote_plus\<close> works on the
  UTF-8 bytes: a letter, digit or one of \<open>_.-~\<close> stays, a space becomes \<open>+\<close>, every other
  byte becomes \<open>%XX\<close> in upper-case hexadecimal.
\<close>

definition unreserved :: string where
  "unreserved = ''ABCDEFGHIJKLMNOPQRSTUVWXYZabcdefghijklmnopqrstuvwxyz0123456789_.-~''"

definition upper_hex_digit :: "nat \<Rightarrow> char" where
  "upper_hex_digit n = ''0123456789ABCDEF'' ! (n mod 16)"

definition quote_byte :: "byte \<Rightarrow> string" where
  "quote_byte b =
     (if unat b < 128 \<and> char_of_byte b \<in> set unreserved then [char_of_byte b]
      else if b = byte_of_char CHR '' '' then ''+''
      else [CHR ''%'', upper_hex_digit (unat b div 16), upper_hex_digit (unat b mod 16)])"

definition quote_plus :: "string \<Rightarrow> string" where
  "quote_plus s = concat (map quote_byte (encode_utf8 s))"

fun join :: "string \<Rightarrow> string list \<Rightarrow> string" where
  "join sep [] = []"
| "join sep [x] = x"
| "join sep (x # y # ys) = x @ sep @ join sep (y # ys)"

definition urlencode :: "(string \<times> string) list \<Rightarrow> string" where
  "urlencode query = join ''&'' (map (\<lambda>(k, v). quote_plus k @ ''='' @ quote_plus v) query)"

definition CLIENT_PORT :: nat where
  "CLIENT_PORT = 8080"

definition REDIRECT_URI :: string where
  "REDIRECT_URI = ''http://localhost:'' @ str_nat CLIENT_PORT @ ''/callback''"

text \<open>
  An f-string field holding a JSON value: a string is inserted as it is; for any other
  value Python inserts \<^verbatim>\<open>str(v)\<close>, which is the parameter \<open>py_str\<close>.
\<close>

fun format_field :: "(json \<Rightarrow> string) \<Rightarrow> json \<Rightarrow> string" where
  "format_field py_str (JStr s) = s"
| "format_field py_str v = py_str v"

text \<open>
  \<^verbatim>\<open>start_auth_flow\<close>: \<open>rnd1\<close>, \<open>rnd2\<close> and \<open>rnd3\<close> are the three random draws, in the
  order the code makes them.  The authorization URL is a local value of the source,
  which prints it; the model returns it beside the access token.
\<close>

definition start_auth_flow ::
  "(json \<Rightarrow> string) \<Rightarrow> (byte list \<Rightarrow> byte list) \<Rightarrow> byte list \<Rightarrow> byte list \<Rightarrow> byte list
     \<Rightarrow> json \<Rightarrow> oauth_client \<Rightarrow> (error + string \<times> string) \<times> oauth_client" where
  "start_auth_flow py_str sha256 rnd1 rnd2 rnd3 auth_server_metadata self =
     (case generate_pkce sha256 rnd1 self of
        (Inl e, self1) \<Rightarrow> (Inl e, self1)
      | (Inr pkce_params, self1) \<Rightarrow>
          (case generate_state rnd2 self1 of
             (state', self2) \<Rightarrow>
               (case item pkce_params ''code_challenge'' of
                  Inl e \<Rightarrow> (Inl e, self2)
                | Inr challenge \<Rightarrow>
                    (case item pkce_params ''code_challenge_method'' of
                       Inl e \<Rightarrow> (Inl e, self2)
                     | Inr method \<Rightarrow>
                         (let auth_params =
                                [(''response_type'', ''code''),
                                 (''client_id'', ''YOUR_CLIENT_ID''),
                                 (''redirect_uri'', REDIRECT_URI),
                                 (''scope'', ''twenty:read twenty:write''),
                                 (''code_challenge'', challenge),
                                 (''code_challenge_method'', method),
                                 (''state'', state')]
                          in case subscript auth_server_metadata ''authorization_endpoint'' of
                               Inl e \<Rightarrow> (Inl e, self2)
                             | Inr endpoint \<Rightarrow>
                                 (let auth_url =
                                        format_field py_str endpoint @ ''?''
                                          @ urlencode auth_params
                                  in case simulate_callback rnd3 self2 of
                                       (token, self3) \<Rightarrow> (Inr (auth_url, token), self3)))))))"

section \<open>The complete flow\<close>

text \<open>
  \<^verbatim>\<open>run_complete_flow\<close> runs the six steps in order; its \<^verbatim>\<open>except\<close> clause prints the
  error and raises it again, so the first exception of a step is the outcome of the run.
  \<open>reply1\<close> to \<open>reply5\<close> are the network's answers to the five requests.
\<close>

definition run_complete_flow ::
  "(json \<Rightarrow> string) \<Rightarrow> (byte list \<Rightarrow> byte list) \<Rightarrow> byte list \<Rightarrow> byte list \<Rightarrow> byte list
     \<Rightarrow> error + client_response \<Rightarrow> error + client_response \<Rightarrow> error + client_response
     \<Rightarrow> error + client_response \<Rightarrow> error + client_response
     \<Rightarrow> oauth_client \<Rightarrow> (error + unit) \<times> oauth_client" where
  "run_complete_flow py_str sha256 rnd1 rnd2 rnd3 reply1 reply2 reply3 reply4 reply5 self =
     (case discover_endpoints self reply1 of
        Inl e \<Rightarrow> (Inl e, self)
      | Inr endpoints \<Rightarrow>
          (case get_auth_server_metadata self reply2 of
             Inl e \<Rightarrow> (Inl e, self)
           | Inr auth_metadata \<Rightarrow>
               (case start_auth_flow py_str sha256 rnd1 rnd2 rnd3 auth_metadata self of
                  (Inl e, self') \<Rightarrow> (Inl e, self')
                | (Inr _, self') \<Rightarrow>
                    (case store_api_key self' ''demo-twenty-api-key-12345''
                            ''https://api.twenty.com'' reply3 of
                       Inl e \<Rightarrow> (Inl e, self')
                     | Inr _ \<Rightarrow>
                         (case get_api_key_metadata self' reply4 of
                            Inl e \<Rightarrow> (Inl e, self')
                          | Inr _ \<Rightarrow>
                              (case make_mcp_request self' reply5 of
                                 Inl e \<Rightarrow> (Inl e, self')
                               | Inr _ \<Rightarrow> (Inr (), self')))))))"

section \<open>The callback server\<close>

text \<open>
  \<^verbatim>\<open>request.query\<close> is a multi-dictionary: an association list in the order of the query
  string, where \<^verbatim>\<open>key in query\<close>, \<^verbatim>\<open>query[key]\<close> and \<^verbatim>\<open>query.get(key)\<close> see the first
  entry of a key.  A \<^verbatim>\<open>web.Response\<close> has a status (200 when none is given), a text and
  a content type.
\<close>

record web_response =
  resp_status :: nat
  resp_text :: string
  resp_content_type :: string

definition success_text :: string where
  "success_text =
     [CHR 0x0A] @ ''            <h1>Authorization Successful!</h1>''
     @ [CHR 0x0A] @ ''            <p>You can close this window and return to the application.</p>''
     @ [CHR 0x0A] @ ''            <script>window.close();</script>''
     @ [CHR 0x0A] @ ''            ''"

text \<open>\<^verbatim>\<open>handle_callback\<close>: \<open>client\<close> is \<^verbatim>\<open>self.client\<close> of the callback server.\<close>

definition handle_callback :: "oauth_client \<Rightarrow> (string \<times> string) list \<Rightarrow> web_response" where
  "handle_callback client query =
     (case map_of query ''error'' of
        Some err \<Rightarrow>
          \<lparr>resp_status = 400,
           resp_text = ''<h1>Authorization Error</h1><p>'' @ err @ ''</p>'',
           resp_content_type = ''text/html''\<rparr>
      | None \<Rightarrow>
          if map_of query ''state'' \<noteq> state client then
            \<lparr>resp_status = 400,
             resp_text = ''<h1>Invalid State</h1><p>State parameter mismatch</p>'',
             resp_content_type = ''text/html''\<rparr>
          else
            (case map_of query ''code'' of
               None \<Rightarrow>
                 \<lparr>resp_status = 400,
                  resp_text = ''<h1>Missing Code</h1><p>No authorization code received</p>'',
                  resp_content_type = ''text/html''\<rparr>
             | Some code \<Rightarrow>
                 if code = [] then
                   \<lparr>resp_status = 400,
                    resp_text = ''<h1>Missing Code</h1><p>No authorization code received</p>'',
                    resp_content_type = ''text/html''\<rparr>
                 else
                   \<lparr>resp_status = 200,
                    resp_text = success_text,
                    resp_content_type = ''text/html''\<rparr>))"

text \<open>
  A response carries an indication \<open>msg\<close> when \<open>msg\<close> occurs in its text
  (Python's \<^verbatim>\<open>msg in text\<close>).
\<close>

fun contains :: "string \<Rightarrow> string \<Rightarrow> bool" where
  "contains msg [] = (msg = [])"
| "contains msg (c # cs) = (prefix msg (c # cs) \<or> contains msg cs)"

definition indicates :: "web_response \<Rightarrow> string \<Rightarrow> bool" where
  "indicates response msg = contains msg (resp_text response)"

section \<open>Properties of the encodings\<close>

subsection \<open>Characters and bytes\<close>

lemma char_of_byte_of_char [simp]: "char_of_byte (byte_of_char c) = c"
  by (simp add: char_of_byte_def byte_of_char_def unat_of_nat)

lemma unat_byte_of_char [simp]: "unat (byte_of_char c) = of_char c"
  by (simp add: byte_of_char_def unat_of_nat)

lemma byte_of_char_eq_iff [simp]: "byte_of_char c = byte_of_char d \<longleftrightarrow> c = d"
  by (metis char_of_byte_of_char)

lemma urlsafe_translate_char:
  "urlsafe_translate (byte_of_char c) =
     byte_of_char (if c = CHR ''+'' then CHR ''-'' else if c = CHR ''/'' then CHR ''_'' else c)"
  by (simp add: urlsafe_translate_def)

lemma length_b64_alphabet: "length b64_alphabet = 64"
  by (simp add: b64_alphabet_def)

lemma length_urlsafe_alphabet: "length urlsafe_alphabet = 64"
  by (simp add: urlsafe_alphabet_def)

lemma translate_alphabet:
  "map (\<lambda>c. if c = CHR ''+'' then CHR ''-'' else if c = CHR ''/'' then CHR ''_'' else c) b64_alphabet
     = urlsafe_alphabet"
  by (simp add: b64_alphabet_def urlsafe_alphabet_def)

lemma urlsafe_translate_b64_byte: "urlsafe_translate (b64_byte n) = byte_of_char (url_char n)"
proof -
  have "n mod 64 < length b64_alphabet" by (simp add: length_b64_alphabet)
  then show ?thesis
    unfolding b64_byte_def url_char_def urlsafe_translate_char
    by (simp add: translate_alphabet [symmetric])
qed

lemma urlsafe_translate_pad: "urlsafe_translate b64_pad = byte_of_char CHR ''=''"
  by (simp add: b64_pad_def urlsafe_translate_char)

lemma url_char_in_alphabet: "url_char n \<in> set urlsafe_alphabet"
  by (simp add: url_char_def length_urlsafe_alphabet)

lemma eq_notin_alphabet: "CHR ''='' \<notin> set urlsafe_alphabet"
  by (simp add: urlsafe_alphabet_def)

lemma ascii_alphabet: "c \<in> set urlsafe_alphabet \<Longrightarrow> (of_char c :: nat) < 128"
  by (auto simp add: urlsafe_alphabet_def)

lemma url_char_neq_pad [simp]: "url_char n \<noteq> CHR ''=''"
  using url_char_in_alphabet [of n] eq_notin_alphabet by metis

lemma url_char_ascii [simp]: "(of_char (url_char n) :: nat) < 128"
  by (rule ascii_alphabet [OF url_char_in_alphabet])

lemma set_base64url_nopad: "set (base64url_nopad bs) \<subseteq> set urlsafe_alphabet"
  by (induction bs rule: base64url_nopad.induct) (simp_all add: url_char_in_alphabet)

lemma decode_utf8_ascii:
  "\<forall>c \<in> set s. (of_char c :: nat) < 128 \<Longrightarrow> decode_utf8 (map byte_of_char s) = Inr s"
proof (induction s)
  case Nil
  then show ?case by simp
next
  case (Cons c s)
  then show ?case by (cases s) simp_all
qed

lemma rstrip_Cons:
  "rstrip chars (x # xs) = (if rstrip chars xs = [] \<and> x \<in> set chars then [] else x # rstrip chars xs)"
  by (simp add: rstrip_def dropWhile_append)

lemma rstrip_Nil [simp]: "rstrip chars [] = []"
  by (simp add: rstrip_def)

lemma rstrip_base64url_nopad: "rstrip ''='' (base64url_nopad bs) = base64url_nopad bs"
  by (induction bs rule: base64url_nopad.induct) (simp_all add: rstrip_Cons)

lemma urlsafe_b64encode_chars:
  "urlsafe_b64encode bs = map byte_of_char (base64url_nopad bs @ b64_padding (length bs))"
proof (induction bs rule: b64encode.induct)
  case 1
  show ?case by (simp add: urlsafe_b64encode_def b64_padding_def)
next
  case (2 a)
  show ?case
    by (simp add: urlsafe_b64encode_def b64_padding_def urlsafe_translate_b64_byte
        urlsafe_translate_pad numeral_2_eq_2)
next
  case (3 a b)
  show ?case
    by (simp add: urlsafe_b64encode_def b64_padding_def urlsafe_translate_b64_byte
        urlsafe_translate_pad)
next
  case (4 a b c rest)
  have "b64_padding (length (a # b # c # rest)) = b64_padding (length rest)"
    by (simp add: b64_padding_def)
  with 4 show ?case
    by (simp add: urlsafe_b64encode_def urlsafe_translate_b64_byte)
qed

lemma rstrip_append_padding:
  "rstrip ''='' (base64url_nopad bs @ replicate k CHR ''='') = base64url_nopad bs"
proof -
  have "dropWhile (\<lambda>c. c = CHR ''='') (replicate k CHR ''='' @ t) =
        dropWhile (\<lambda>c. c = CHR ''='') t" for t
    by (induction k) simp_all
  then have "rstrip ''='' (s @ replicate k CHR ''='') = rstrip ''='' s" for s
    by (simp add: rstrip_def)
  then show ?thesis by (simp add: rstrip_base64url_nopad)
qed

lemma decode_urlsafe_b64encode:
  "decode_utf8 (urlsafe_b64encode bs) = Inr (base64url_nopad bs @ b64_padding (length bs))"
proof -
  have "\<forall>c \<in> set (base64url_nopad bs @ b64_padding (length bs)). (of_char c :: nat) < 128"
    using set_base64url_nopad [of bs] by (auto simp add: b64_padding_def dest: ascii_alphabet)
  then show ?thesis
    by (simp only: urlsafe_b64encode_chars decode_utf8_ascii)
qed

lemma generate_pkce_eq:
  "generate_pkce sha256 rnd self =
     (Inr [(''code_verifier'', base64url_nopad rnd),
           (''code_challenge'', base64url_nopad (sha256 (encode_utf8 (base64url_nopad rnd)))),
           (''code_challenge_method'', ''S256'')],
      self\<lparr>code_verifier := Some (base64url_nopad rnd)\<rparr>)"
  by (simp add: generate_pkce_def decode_urlsafe_b64encode b64_padding_def rstrip_append_padding Let_def)

lemma base64url_nopad_refines:
  "map_sum id (rstrip ''='') (decode_utf8 (urlsafe_b64encode bs)) = Inr (base64url_nopad bs)"
  by (simp add: decode_urlsafe_b64encode b64_padding_def rstrip_append_padding)

lemma hex_digit_inj: "i < 16 \<Longrightarrow> j < 16 \<Longrightarrow> hex_digit i = hex_digit j \<Longrightarrow> i = j"
proof -
  assume ij: "i < 16" "j < 16" and eq: "hex_digit i = hex_digit j"
  have d: "distinct ''0123456789abcdef''" by simp
  have l: "length ''0123456789abcdef'' = 16" by simp
  from eq have "''0123456789abcdef'' ! i = ''0123456789abcdef'' ! j"
    using ij by (simp add: hex_digit_def)
  then show "i = j"
    using ij l by (simp only: nth_eq_iff_index_eq [OF d])
qed

lemma hex_digit_in: "hex_digit n \<in> set ''0123456789abcdef''"
proof -
  have "n mod 16 < length ''0123456789abcdef''" by simp
  then show ?thesis unfolding hex_digit_def by (rule nth_mem)
qed

lemma unat_byte_bound: "unat (b :: byte) < 256"
  using unsigned_less [of b, where ?'a = nat] by simp

lemma hex_byte_inj:
  fixes a b :: byte
  assumes "hex_digit (unat a div 16) = hex_digit (unat b div 16)"
    and "hex_digit (unat a mod 16) = hex_digit (unat b mod 16)"
  shows "a = b"
proof -
  have "unat a div 16 < 16" "unat b div 16 < 16"
    using unat_byte_bound [of a] unat_byte_bound [of b] by simp_all
  with assms(1) have d: "unat a div 16 = unat b div 16" by (rule hex_digit_inj [rotated 2])
  have "unat a mod 16 = unat b mod 16"
    by (rule hex_digit_inj [OF _ _ assms(2)]) simp_all
  with d have "unat a = unat b"
    by (metis div_mult_mod_eq)
  then show ?thesis by (simp add: word_unat_eq_iff)
qed

lemma hex_Cons: "hex (b # bs) = hex_digit (unat b div 16) # hex_digit (unat b mod 16) # hex bs"
  by (simp add: hex_def)

lemma hex_Nil [simp]: "hex [] = []"
  by (simp add: hex_def)

lemma hex_inj: "hex xs = hex ys \<Longrightarrow> xs = ys"
proof (induction xs arbitrary: ys)
  case Nil
  then show ?case by (cases ys) (simp_all add: hex_Cons)
next
  case (Cons x xs)
  show ?case
  proof (cases ys)
    case Nil
    with Cons.prems show ?thesis by (simp add: hex_Cons)
  next
    case (Cons y ys')
    with Cons.prems have "x = y" and "hex xs = hex ys'"
      by (auto simp add: hex_Cons intro: hex_byte_inj)
    with Cons.IH Cons show ?thesis by simp
  qed
qed

lemma set_hex: "set (hex bs) \<subseteq> set ''0123456789abcdef''"
proof (induction bs)
  case Nil
  show ?case by simp
next
  case (Cons b bs)
  then show ?case
    using hex_digit_in [of "unat b div 16"] hex_digit_in [of "unat b mod 16"]
    by (simp only: hex_Cons set_simps insert_subset simp_thms)
qed

section \<open>The PKCE and state generators\<close>

text \<open>
  Claim C1.  Every call of \<^verbatim>\<open>generate_pkce\<close> returns normally, with a dictionary of the
  three keys in which the challenge is \<open>base64url_nopad\<close> of the SHA-256 digest of the
  UTF-8 bytes of the returned verifier, which is also what the code's own pipeline
  (URL-safe base64 with padding, decoded, trailing \<open>=\<close> stripped) gives on that digest;
  the method is \<open>S256\<close>, and the verifier stored in the client is the returned one.
  This holds for every digest function and every random draw.
\<close>

theorem generate_pkce_challenge:
  "\<exists>verifier challenge self'.
     generate_pkce sha256 rnd self =
       (Inr [(''code_verifier'', verifier),
             (''code_challenge'', challenge),
             (''code_challenge_method'', ''S256'')], self')
     \<and> challenge = base64url_nopad (sha256 (encode_utf8 verifier))
     \<and> Inr challenge =
         map_sum id (rstrip ''='') (decode_utf8 (urlsafe_b64encode (sha256 (encode_utf8 verifier))))
     \<and> code_verifier self' = Some verifier"
  by (simp add: generate_pkce_eq base64url_nopad_refines)

text \<open>
  Claim C4.  The returned verifier and challenge consist of characters of the URL-safe
  alphabet (\<open>A-Z\<close>, \<open>a-z\<close>, \<open>0-9\<close>, \<open>-\<close>, \<open>_\<close>) only, and neither contains \<open>=\<close>.
\<close>

theorem generate_pkce_urlsafe:
  "\<exists>verifier challenge self'.
     generate_pkce sha256 rnd self =
       (Inr [(''code_verifier'', verifier),
             (''code_challenge'', challenge),
             (''code_challenge_method'', ''S256'')], self')
     \<and> set verifier \<subseteq> set urlsafe_alphabet \<and> CHR ''='' \<notin> set verifier
     \<and> set challenge \<subseteq> set urlsafe_alphabet \<and> CHR ''='' \<notin> set challenge"
  using set_base64url_nopad eq_notin_alphabet
  by (auto simp add: generate_pkce_eq)

text \<open>
  Claim C8.  \<^verbatim>\<open>generate_state\<close> returns the hexadecimal text of the bytes it draws:
  only the characters \<open>0-9\<close> and \<open>a-f\<close> occur, the client's \<open>state\<close> field holds the
  returned token, and the token is fixed by the new draw alone: whatever the client
  held before, two calls return the same token exactly when their draws are the same.
\<close>

theorem generate_state_hex:
  "fst (generate_state rnd self) = hex rnd
   \<and> set (fst (generate_state rnd self)) \<subseteq> set ''0123456789abcdef''
   \<and> state (snd (generate_state rnd self)) = Some (fst (generate_state rnd self))
   \<and> (fst (generate_state rnd self) = fst (generate_state rnd' self') \<longleftrightarrow> rnd = rnd')"
  using set_hex [of rnd] hex_inj [of rnd rnd']
  by (auto simp add: generate_state_def Let_def)

text \<open>
  Claim C10.  \<^verbatim>\<open>generate_pkce\<close> changes the \<open>code_verifier\<close> field only and
  \<^verbatim>\<open>generate_state\<close> the \<open>state\<close> field only: the client after the call is the client
  before it with that one field updated, so the access token, the session and the other
  generator's field are as before.
\<close>

theorem generators_frame:
  "(\<exists>v. snd (generate_pkce sha256 rnd self) = self\<lparr>code_verifier := Some v\<rparr>)
   \<and> access_token (snd (generate_pkce sha256 rnd self)) = access_token self
   \<and> state (snd (generate_pkce sha256 rnd self)) = state self
   \<and> session (snd (generate_pkce sha256 rnd self)) = session self
   \<and> (\<exists>t. snd (generate_state rnd self) = self\<lparr>state := Some t\<rparr>)
   \<and> access_token (snd (generate_state rnd self)) = access_token self
   \<and> code_verifier (snd (generate_state rnd self)) = code_verifier self
   \<and> session (snd (generate_state rnd self)) = session self"
  by (auto simp add: generate_pkce_eq generate_state_def Let_def)

section \<open>The callback handler\<close>

lemma map_of_present: "k \<in> fst ` set d \<longleftrightarrow> map_of d k \<noteq> None"
  by (simp add: map_of_eq_None_iff)

lemma handle_callback_error:
  "map_of query ''error'' = Some err \<Longrightarrow>
   handle_callback client query =
     \<lparr>resp_status = 400,
      resp_text = ''<h1>Authorization Error</h1><p>'' @ err @ ''</p>'',
      resp_content_type = ''text/html''\<rparr>"
  by (simp add: handle_callback_def)

lemma handle_callback_invalid_state:
  "map_of query ''error'' = None \<Longrightarrow> map_of query ''state'' \<noteq> state client \<Longrightarrow>
   handle_callback client query =
     \<lparr>resp_status = 400,
      resp_text = ''<h1>Invalid State</h1><p>State parameter mismatch</p>'',
      resp_content_type = ''text/html''\<rparr>"
  by (simp add: handle_callback_def)

lemma handle_callback_missing_code:
  "map_of query ''error'' = None \<Longrightarrow> map_of query ''state'' = state client \<Longrightarrow>
   map_of query ''code'' = None \<or> map_of query ''code'' = Some [] \<Longrightarrow>
   handle_callback client query =
     \<lparr>resp_status = 400,
      resp_text = ''<h1>Missing Code</h1><p>No authorization code received</p>'',
      resp_content_type = ''text/html''\<rparr>"
  by (auto simp add: handle_callback_def)

lemma handle_callback_success:
  "map_of query ''error'' = None \<Longrightarrow> map_of query ''state'' = state client \<Longrightarrow>
   map_of query ''code'' = Some code \<Longrightarrow> code \<noteq> [] \<Longrightarrow>
   handle_callback client query =
     \<lparr>resp_status = 200, resp_text = success_text, resp_content_type = ''text/html''\<rparr>"
  by (simp add: handle_callback_def)

lemma indicates_invalid_state:
  "indicates \<lparr>resp_status = n,
      resp_text = ''<h1>Invalid State</h1><p>State parameter mismatch</p>'',
      resp_content_type = t\<rparr> ''Invalid State''"
  by (simp add: indicates_def)

lemma indicates_missing_code:
  "indicates \<lparr>resp_status = n,
      resp_text = ''<h1>Missing Code</h1><p>No authorization code received</p>'',
      resp_content_type = t\<rparr> ''Missing Code''"
  by (simp add: indicates_def)

lemma not_indicates_authorization_error:
  "\<not> indicates \<lparr>resp_status = 400,
      resp_text = ''<h1>Authorization Error</h1><p>access_denied</p>'',
      resp_content_type = ''text/html''\<rparr> ''Invalid State''"
  by (simp add: indicates_def)

lemma not_indicates_missing:
  "\<not> indicates \<lparr>resp_status = 400,
      resp_text = ''<h1>Invalid State</h1><p>State parameter mismatch</p>'',
      resp_content_type = ''text/html''\<rparr> ''Missing Code''"
  by (simp add: indicates_def)

text \<open>
  Claim C2, as stated, fails.  With an \<open>error\<close> parameter and a \<open>state\<close> that does not
  match, the response is the authorization error page, which carries no
  ``Invalid State'' indication; and an empty query (neither \<open>code\<close> nor \<open>error\<close>) sent to a
  client that holds a state is answered with the invalid state page, not with
  ``Missing Code''.
\<close>

theorem handle_callback_counterexample:
  "map_of [(''error'', ''access_denied''), (''state'', ''x'')] ''state''
       \<noteq> state (init_client\<lparr>state := Some ''y''\<rparr>)
   \<and> \<not> indicates (handle_callback (init_client\<lparr>state := Some ''y''\<rparr>)
            [(''error'', ''access_denied''), (''state'', ''x'')]) ''Invalid State''
   \<and> ''code'' \<notin> fst ` set ([] :: (string \<times> string) list)
   \<and> ''error'' \<notin> fst ` set ([] :: (string \<times> string) list)
   \<and> \<not> indicates (handle_callback (init_client\<lparr>state := Some ''y''\<rparr>) []) ''Missing Code''"
proof -
  let ?c = "init_client\<lparr>state := Some ''y''\<rparr>"
  let ?q = "[(''error'', ''access_denied''), (''state'', ''x'')]"
  have "handle_callback ?c ?q =
      \<lparr>resp_status = 400,
       resp_text = ''<h1>Authorization Error</h1><p>access_denied</p>'',
       resp_content_type = ''text/html''\<rparr>"
    by (simp add: handle_callback_error)
  moreover have "handle_callback ?c [] =
      \<lparr>resp_status = 400,
       resp_text = ''<h1>Invalid State</h1><p>State parameter mismatch</p>'',
       resp_content_type = ''text/html''\<rparr>"
    by (simp add: handle_callback_invalid_state)
  ultimately show ?thesis
    by (simp add: not_indicates_authorization_error not_indicates_missing)
qed

lemma handle_callback_status:
  "resp_status (handle_callback client query) = 400
   \<or> resp_status (handle_callback client query) = 200"
  by (simp add: handle_callback_def split: option.split)

text \<open>
  Claim C2, amended.  A state that does not match gives status 400, with the
  ``Invalid State'' indication when the query has no \<open>error\<close> parameter.  An \<open>error\<close>
  parameter gives status 400.  A query with neither \<open>code\<close> nor \<open>error\<close> gives status 400,
  with the ``Missing Code'' indication when the state matches.  A matching state with a
  non-empty \<open>code\<close> and no \<open>error\<close> gives status 200.
\<close>

theorem handle_callback_cases:
  "(map_of query ''state'' \<noteq> state client \<longrightarrow>
      resp_status (handle_callback client query) = 400
      \<and> (''error'' \<notin> fst ` set query \<longrightarrow>
            indicates (handle_callback client query) ''Invalid State''))
   \<and> (''error'' \<in> fst ` set query \<longrightarrow> resp_status (handle_callback client query) = 400)
   \<and> (''code'' \<notin> fst ` set query \<and> ''error'' \<notin> fst ` set query \<longrightarrow>
      resp_status (handle_callback client query) = 400
      \<and> (map_of query ''state'' = state client \<longrightarrow>
            indicates (handle_callback client query) ''Missing Code''))
   \<and> (map_of query ''state'' = state client \<and> ''error'' \<notin> fst ` set query
        \<and> (\<exists>code. map_of query ''code'' = Some code \<and> code \<noteq> []) \<longrightarrow>
      resp_status (handle_callback client query) = 200)"
proof (cases "map_of query ''error''")
  case (Some err)
  then have "''error'' \<in> fst ` set query" by (simp add: map_of_present)
  with Some show ?thesis by (simp add: handle_callback_error)
next
  case None
  then have noerr: "''error'' \<notin> fst ` set query" by (simp add: map_of_present)
  show ?thesis
  proof (cases "map_of query ''state'' = state client")
    case False
    with None noerr show ?thesis
      by (simp add: handle_callback_invalid_state indicates_invalid_state)
  next
    case True
    show ?thesis
    proof (cases "map_of query ''code''")
      case nocode: None
      then have "''code'' \<notin> fst ` set query" by (simp add: map_of_present)
      with None noerr True nocode show ?thesis
        by (simp add: handle_callback_missing_code indicates_missing_code)
    next
      case (Some code)
      then have "''code'' \<in> fst ` set query" by (simp add: map_of_present)
      with None noerr True Some show ?thesis
        by (simp add: handle_callback_success)
    qed
  qed
qed

theorem handle_callback_cases_witness:
  "resp_status (handle_callback (init_client\<lparr>state := Some ''y''\<rparr>) [(''state'', ''x'')]) = 400
   \<and> indicates (handle_callback (init_client\<lparr>state := Some ''y''\<rparr>) [(''state'', ''x'')])
         ''Invalid State''
   \<and> resp_status (handle_callback (init_client\<lparr>state := Some ''y''\<rparr>)
         [(''error'', ''access_denied''), (''state'', ''y'')]) = 400
   \<and> resp_status (handle_callback (init_client\<lparr>state := Some ''y''\<rparr>) [(''state'', ''y'')]) = 400
   \<and> indicates (handle_callback (init_client\<lparr>state := Some ''y''\<rparr>) [(''state'', ''y'')])
         ''Missing Code''
   \<and> resp_status (handle_callback (init_client\<lparr>state := Some ''y''\<rparr>)
         [(''code'', ''abc''), (''state'', ''y'')]) = 200"
proof -
  let ?c = "init_client\<lparr>state := Some ''y''\<rparr>"
  have 1: "map_of [(''state'', ''x'')] ''state'' \<noteq> state ?c"
    and 2: "''error'' \<notin> fst ` set [(''state'', ''x'')]" by simp_all
  have a: "resp_status (handle_callback ?c [(''state'', ''x'')]) = 400
      \<and> indicates (handle_callback ?c [(''state'', ''x'')]) ''Invalid State''"
    using handle_callback_cases [of "[(''state'', ''x'')]" ?c] 1 2 by blast
  have 3: "''error'' \<in> fst ` set [(''error'', ''access_denied''), (''state'', ''y'')]" by simp
  have b: "resp_status (handle_callback ?c [(''error'', ''access_denied''), (''state'', ''y'')]) = 400"
    using handle_callback_cases [of "[(''error'', ''access_denied''), (''state'', ''y'')]" ?c] 3
    by blast
  have 4: "''code'' \<notin> fst ` set [(''state'', ''y'')] \<and> ''error'' \<notin> fst ` set [(''state'', ''y'')]"
    and 5: "map_of [(''state'', ''y'')] ''state'' = state ?c" by simp_all
  have c: "resp_status (handle_callback ?c [(''state'', ''y'')]) = 400
      \<and> indicates (handle_callback ?c [(''state'', ''y'')]) ''Missing Code''"
    using handle_callback_cases [of "[(''state'', ''y'')]" ?c] 4 5 by blast
  have 6: "map_of [(''code'', ''abc''), (''state'', ''y'')] ''state'' = state ?c
     \<and> ''error'' \<notin> fst ` set [(''code'', ''abc''), (''state'', ''y'')]
     \<and> (\<exists>code. map_of [(''code'', ''abc''), (''state'', ''y'')] ''code'' = Some code \<and> code \<noteq> [])"
    by simp
  have d: "resp_status (handle_callback ?c [(''code'', ''abc''), (''state'', ''y'')]) = 200"
    using handle_callback_cases [of "[(''code'', ''abc''), (''state'', ''y'')]" ?c] 6 by blast
  from a b c d show ?thesis by (simp only: simp_thms)
qed

lemma error_text_distinct:
  "''<h1>Authorization Error</h1><p>'' @ err @ ''</p>''
     \<noteq> ''<h1>Invalid State</h1><p>State parameter mismatch</p>''"
  "''<h1>Authorization Error</h1><p>'' @ err @ ''</p>''
     \<noteq> ''<h1>Missing Code</h1><p>No authorization code received</p>''"
  by simp_all

lemma success_text_distinct:
  "success_text \<noteq> ''<h1>Invalid State</h1><p>State parameter mismatch</p>''"
  "success_text \<noteq> ''<h1>Missing Code</h1><p>No authorization code received</p>''"
  by (simp_all add: success_text_def)

lemma state_text_distinct:
  "''<h1>Invalid State</h1><p>State parameter mismatch</p>''
     \<noteq> ''<h1>Missing Code</h1><p>No authorization code received</p>''"
  by simp

text \<open>
  Claim C9.  The checks run in the order error, state, code.  A query with an \<open>error\<close>
  parameter is answered with the 400 authorization error page showing its first value,
  whatever its state and code are.  The invalid state page is returned exactly when
  there is no \<open>error\<close> parameter and the state does not match, and the missing code page
  exactly when there is no \<open>error\<close> parameter, the state matches and the code is absent
  or empty.
\<close>

theorem handle_callback_order:
  "(''error'' \<in> fst ` set query \<longrightarrow>
      (\<exists>err. map_of query ''error'' = Some err
         \<and> handle_callback client query =
             \<lparr>resp_status = 400,
              resp_text = ''<h1>Authorization Error</h1><p>'' @ err @ ''</p>'',
              resp_content_type = ''text/html''\<rparr>))
   \<and> (resp_text (handle_callback client query)
         = ''<h1>Invalid State</h1><p>State parameter mismatch</p>''
       \<longleftrightarrow> ''error'' \<notin> fst ` set query \<and> map_of query ''state'' \<noteq> state client)
   \<and> (resp_text (handle_callback client query)
         = ''<h1>Missing Code</h1><p>No authorization code received</p>''
       \<longleftrightarrow> ''error'' \<notin> fst ` set query \<and> map_of query ''state'' = state client
           \<and> (map_of query ''code'' = None \<or> map_of query ''code'' = Some []))"
proof (cases "map_of query ''error''")
  case (Some err)
  then have "''error'' \<in> fst ` set query" by (simp add: map_of_present)
  with Some show ?thesis
    by (simp add: handle_callback_error error_text_distinct del: append.simps)
next
  case None
  then have noerr: "''error'' \<notin> fst ` set query" by (simp add: map_of_present)
  show ?thesis
  proof (cases "map_of query ''state'' = state client")
    case False
    with None noerr show ?thesis
      by (simp add: handle_callback_invalid_state state_text_distinct)
  next
    case True
    show ?thesis
    proof (cases "map_of query ''code'' = None \<or> map_of query ''code'' = Some []")
      case nocode: True
      with None noerr True show ?thesis
        by (simp add: handle_callback_missing_code state_text_distinct [symmetric])
    next
      case False
      then obtain code where "map_of query ''code'' = Some code" "code \<noteq> []" by auto
      with None noerr True False show ?thesis
        by (simp add: handle_callback_success success_text_distinct)
    qed
  qed
qed

theorem handle_callback_order_witness:
  "handle_callback (init_client\<lparr>state := Some ''y''\<rparr>) [(''error'', ''access_denied''), (''state'', ''x'')]
     = \<lparr>resp_status = 400,
        resp_text = ''<h1>Authorization Error</h1><p>access_denied</p>'',
        resp_content_type = ''text/html''\<rparr>"
proof -
  let ?q = "[(''error'', ''access_denied''), (''state'', ''x'')]"
  have "''error'' \<in> fst ` set ?q" by simp
  with handle_callback_order [of ?q "init_client\<lparr>state := Some ''y''\<rparr>"]
  obtain err where "map_of ?q ''error'' = Some err"
    and "handle_callback (init_client\<lparr>state := Some ''y''\<rparr>) ?q =
      \<lparr>resp_status = 400,
       resp_text = ''<h1>Authorization Error</h1><p>'' @ err @ ''</p>'',
       resp_content_type = ''text/html''\<rparr>"
    by blast
  then show ?thesis by simp
qed

section \<open>Status handling of the HTTP operations\<close>

lemma request_session: "session self = Some s \<Longrightarrow> request self reply = reply"
  by (simp add: request_def)

lemma discover_endpoints_not_ok:
  "session self = Some s \<Longrightarrow> 400 \<le> status response \<Longrightarrow>
   discover_endpoints self (Inr response) =
     Inl (Exception (''Discovery failed: '' @ str_nat (status response)))"
  by (simp add: discover_endpoints_def request_session ok_def)

lemma get_auth_server_metadata_not_ok:
  "session self = Some s \<Longrightarrow> 400 \<le> status response \<Longrightarrow>
   get_auth_server_metadata self (Inr response) =
     Inl (Exception (''Auth server discovery failed: '' @ str_nat (status response)))"
  by (simp add: get_auth_server_metadata_def request_session ok_def)

lemma store_api_key_not_ok:
  "session self = Some s \<Longrightarrow> 400 \<le> status response \<Longrightarrow> status response \<noteq> 401 \<Longrightarrow>
   store_api_key self api_key base_url (Inr response) =
     Inl (Exception (''Failed to store API key: '' @ str_nat (status response)))"
  by (simp add: store_api_key_def request_session ok_def)

lemma get_api_key_metadata_not_ok:
  "session self = Some s \<Longrightarrow> 400 \<le> status response \<Longrightarrow> status response \<noteq> 401 \<Longrightarrow>
   get_api_key_metadata self (Inr response) =
     Inl (Exception (''Failed to get metadata: '' @ str_nat (status response)))"
  by (simp add: get_api_key_metadata_def request_session ok_def)

lemma make_mcp_request_other:
  "session self = Some s \<Longrightarrow> status response \<noteq> 401 \<Longrightarrow> status response \<noteq> 400 \<Longrightarrow>
   make_mcp_request self (Inr response) = mcp_result response"
  by (simp add: make_mcp_request_def request_session)

lemma make_mcp_request_400_other:
  "session self = Some s \<Longrightarrow> status response = 400 \<Longrightarrow> json_body response = Inr err \<Longrightarrow>
   dict_get err ''error'' = Inr v \<Longrightarrow> v \<noteq> Some (JStr ''No API key configured'') \<Longrightarrow>
   make_mcp_request self (Inr response) = mcp_result response"
  by (simp add: make_mcp_request_def request_session)

lemma make_mcp_request_400_no_key:
  "session self = Some s \<Longrightarrow> status response = 400 \<Longrightarrow> json_body response = Inr err \<Longrightarrow>
   dict_get err ''error'' = Inr (Some (JStr ''No API key configured'')) \<Longrightarrow>
   make_mcp_request self (Inr response) = Inr None"
  by (simp add: make_mcp_request_def request_session)

lemma store_api_key_401:
  "session self = Some s \<Longrightarrow> status response = 401 \<Longrightarrow>
   store_api_key self api_key base_url (Inr response) = Inr False"
  by (simp add: store_api_key_def request_session)

lemma get_api_key_metadata_401:
  "session self = Some s \<Longrightarrow> status response = 401 \<Longrightarrow>
   get_api_key_metadata self (Inr response) = Inr None"
  by (simp add: get_api_key_metadata_def request_session)

lemma make_mcp_request_401:
  "session self = Some s \<Longrightarrow> status response = 401 \<Longrightarrow>
   make_mcp_request self (Inr response) = Inr None"
  by (simp add: make_mcp_request_def request_session)

text \<open>
  Claim C6.  A 401 response does not raise: \<^verbatim>\<open>store_api_key\<close> returns \<open>False\<close>,
  \<^verbatim>\<open>get_api_key_metadata\<close> and \<^verbatim>\<open>make_mcp_request\<close> return \<open>None\<close>.
\<close>

theorem unauthorized_sentinel:
  assumes "session self = Some s" and "status response = 401"
  shows "store_api_key self api_key base_url (Inr response) = Inr False
    \<and> get_api_key_metadata self (Inr response) = Inr None
    \<and> make_mcp_request self (Inr response) = Inr None"
  using assms by (simp add: store_api_key_401 get_api_key_metadata_401 make_mcp_request_401)

theorem unauthorized_sentinel_witness:
  "store_api_key (init_client\<lparr>session := Some ClientSession\<rparr>) ''demo-twenty-api-key-12345''
       ''https://api.twenty.com''
       (Inr \<lparr>status = 401, json_body = Inl JSONDecodeError, text_body = Inr ''Unauthorized''\<rparr>)
     = Inr False
   \<and> get_api_key_metadata (init_client\<lparr>session := Some ClientSession\<rparr>)
       (Inr \<lparr>status = 401, json_body = Inl JSONDecodeError, text_body = Inr ''Unauthorized''\<rparr>)
     = Inr None
   \<and> make_mcp_request (init_client\<lparr>session := Some ClientSession\<rparr>)
       (Inr \<lparr>status = 401, json_body = Inl JSONDecodeError, text_body = Inr ''Unauthorized''\<rparr>)
     = Inr None"
proof -
  have 1: "session (init_client\<lparr>session := Some ClientSession\<rparr>) = Some ClientSession" by simp
  have 2: "status \<lparr>status = 401, json_body = Inl JSONDecodeError,
      text_body = Inr ''Unauthorized''\<rparr> = 401" by simp
  show ?thesis by (rule unauthorized_sentinel [OF 1 2])
qed

text \<open>
  Claim C3, as stated, fails.  \<^verbatim>\<open>make_mcp_request\<close> has no status check after its 401
  and 400 cases: a 500 response is returned as a normal result, its text.  And
  \<^verbatim>\<open>response.ok\<close> holds for every status below 400, so a 300 response, whose body is
  a JSON dictionary with the two keys, passes the check of \<^verbatim>\<open>discover_endpoints\<close> and is
  returned as its result.
\<close>

theorem status_counterexample:
  "make_mcp_request (init_client\<lparr>session := Some ClientSession\<rparr>)
       (Inr \<lparr>status = 500, json_body = Inl JSONDecodeError,
             text_body = Inr ''Internal Server Error''\<rparr>)
     = Inr (Some ''Internal Server Error'')
   \<and> discover_endpoints (init_client\<lparr>session := Some ClientSession\<rparr>)
       (Inr \<lparr>status = 300,
             json_body = Inr (JObj [(''resource'', JStr ''r''),
                                    (''authorization_servers'', JArr [JStr ''a''])]),
             text_body = Inr ''Multiple Choices''\<rparr>)
     = Inr (JObj [(''resource'', JStr ''r''), (''authorization_servers'', JArr [JStr ''a''])])"
  by (simp add: make_mcp_request_def mcp_result_def discover_endpoints_def request_def ok_def
      init_client_def item_def)

lemma start_auth_flow_eq:
  "subscript auth_server_metadata ''authorization_endpoint'' = Inr endpoint \<Longrightarrow>
   start_auth_flow py_str sha256 rnd1 rnd2 rnd3 auth_server_metadata self =
     (Inr (format_field py_str endpoint @ ''?'' @ urlencode
             [(''response_type'', ''code''),
              (''client_id'', ''YOUR_CLIENT_ID''),
              (''redirect_uri'', REDIRECT_URI),
              (''scope'', ''twenty:read twenty:write''),
              (''code_challenge'',
                 base64url_nopad (sha256 (encode_utf8 (base64url_nopad rnd1)))),
              (''code_challenge_method'', ''S256''),
              (''state'', hex rnd2)],
           ''mock_access_token_'' @ hex rnd3),
      self\<lparr>code_verifier := Some (base64url_nopad rnd1), state := Some (hex rnd2),
           access_token := Some (''mock_access_token_'' @ hex rnd3)\<rparr>)"
  by (simp add: start_auth_flow_def generate_pkce_eq generate_state_def simulate_callback_def
      item_def Let_def)

lemma get_auth_server_metadata_endpoint:
  assumes "get_auth_server_metadata self reply = Inr m"
  shows "\<exists>endpoint. subscript m ''authorization_endpoint'' = Inr endpoint"
proof (cases "subscript m ''authorization_endpoint''")
  case (Inl e)
  with assms show ?thesis
    by (simp add: get_auth_server_metadata_def split: sum.splits if_splits)
next
  case (Inr endpoint)
  then show ?thesis by blast
qed

lemma start_auth_flow_after_metadata:
  assumes "get_auth_server_metadata self reply = Inr m"
  shows "\<exists>r self'. start_auth_flow py_str sha256 rnd1 rnd2 rnd3 m self = (Inr r, self')
           \<and> session self' = session self"
proof -
  from get_auth_server_metadata_endpoint [OF assms]
  obtain endpoint where "subscript m ''authorization_endpoint'' = Inr endpoint" ..
  then show ?thesis by (simp add: start_auth_flow_eq)
qed

lemma store_api_key_session:
  "session a = session b \<Longrightarrow> store_api_key a k u reply = store_api_key b k u reply"
  by (simp add: store_api_key_def request_def)

lemma get_api_key_metadata_session:
  "session a = session b \<Longrightarrow> get_api_key_metadata a reply = get_api_key_metadata b reply"
  by (simp add: get_api_key_metadata_def request_def)

lemma make_mcp_request_session:
  "session a = session b \<Longrightarrow> make_mcp_request a reply = make_mcp_request b reply"
  by (simp add: make_mcp_request_def request_def)

lemma run_aborts_discover:
  "discover_endpoints self reply1 = Inl e \<Longrightarrow>
   fst (run_complete_flow py_str sha256 rnd1 rnd2 rnd3 reply1 reply2 reply3 reply4 reply5 self)
     = Inl e"
  by (simp add: run_complete_flow_def)

lemma run_aborts_metadata:
  "discover_endpoints self reply1 = Inr m1 \<Longrightarrow> get_auth_server_metadata self reply2 = Inl e \<Longrightarrow>
   fst (run_complete_flow py_str sha256 rnd1 rnd2 rnd3 reply1 reply2 reply3 reply4 reply5 self)
     = Inl e"
  by (simp add: run_complete_flow_def)

lemma run_aborts_store:
  assumes "discover_endpoints self reply1 = Inr m1"
    and "get_auth_server_metadata self reply2 = Inr m2"
    and "store_api_key self ''demo-twenty-api-key-12345'' ''https://api.twenty.com'' reply3 = Inl e"
  shows "fst (run_complete_flow py_str sha256 rnd1 rnd2 rnd3 reply1 reply2 reply3 reply4 reply5 self)
     = Inl e"
proof -
  from start_auth_flow_after_metadata [OF assms(2)]
  obtain r self' where f: "start_auth_flow py_str sha256 rnd1 rnd2 rnd3 m2 self = (Inr r, self')"
    and s: "session self' = session self" by blast
  from assms(3) have "store_api_key self' ''demo-twenty-api-key-12345''
      ''https://api.twenty.com'' reply3 = Inl e"
    by (simp add: store_api_key_session [OF s])
  with assms(1,2) f show ?thesis by (simp add: run_complete_flow_def)
qed

lemma run_aborts_key_metadata:
  assumes "discover_endpoints self reply1 = Inr m1"
    and "get_auth_server_metadata self reply2 = Inr m2"
    and "store_api_key self ''demo-twenty-api-key-12345'' ''https://api.twenty.com'' reply3 = Inr b"
    and "get_api_key_metadata self reply4 = Inl e"
  shows "fst (run_complete_flow py_str sha256 rnd1 rnd2 rnd3 reply1 reply2 reply3 reply4 reply5 self)
     = Inl e"
proof -
  from start_auth_flow_after_metadata [OF assms(2)]
  obtain r self' where f: "start_auth_flow py_str sha256 rnd1 rnd2 rnd3 m2 self = (Inr r, self')"
    and s: "session self' = session self" by blast
  from assms(3) have "store_api_key self' ''demo-twenty-api-key-12345''
      ''https://api.twenty.com'' reply3 = Inr b"
    by (simp add: store_api_key_session [OF s])
  moreover from assms(4) have "get_api_key_metadata self' reply4 = Inl e"
    by (simp add: get_api_key_metadata_session [OF s])
  ultimately show ?thesis using assms(1,2) f by (simp add: run_complete_flow_def)
qed

text \<open>
  Claim C3, amended.  With a session, a response whose status is 400 or above makes
  \<^verbatim>\<open>discover_endpoints\<close> and \<^verbatim>\<open>get_auth_server_metadata\<close> raise an exception naming the
  status, and so do \<^verbatim>\<open>store_api_key\<close> and \<^verbatim>\<open>get_api_key_metadata\<close> unless the status is
  their handled 401; in \<^verbatim>\<open>run_complete_flow\<close> that exception is the outcome of the run
  when the earlier steps returned.  \<^verbatim>\<open>make_mcp_request\<close> raises on no status.  For every
  status but 401 and 400 it returns the text of the response.  At 400 it reads the JSON
  body: when that is a dictionary whose \<open>error\<close> is \<open>No API key configured\<close> it returns
  \<open>None\<close>, and for any other dictionary it returns the text of the response as well.
\<close>

theorem error_status_raises:
  assumes "session self = Some s"
  shows
    "(400 \<le> status response \<longrightarrow>
        discover_endpoints self (Inr response)
          = Inl (Exception (''Discovery failed: '' @ str_nat (status response)))
        \<and> get_auth_server_metadata self (Inr response)
          = Inl (Exception (''Auth server discovery failed: '' @ str_nat (status response)))
        \<and> (status response \<noteq> 401 \<longrightarrow>
             store_api_key self api_key base_url (Inr response)
               = Inl (Exception (''Failed to store API key: '' @ str_nat (status response)))
             \<and> get_api_key_metadata self (Inr response)
               = Inl (Exception (''Failed to get metadata: '' @ str_nat (status response))))
        \<and> fst (run_complete_flow py_str sha256 rnd1 rnd2 rnd3
                 (Inr response) reply2 reply3 reply4 reply5 self)
             = Inl (Exception (''Discovery failed: '' @ str_nat (status response)))
        \<and> (discover_endpoints self reply1 = Inr m1 \<longrightarrow>
             fst (run_complete_flow py_str sha256 rnd1 rnd2 rnd3
                    reply1 (Inr response) reply3 reply4 reply5 self)
               = Inl (Exception (''Auth server discovery failed: '' @ str_nat (status response))))
        \<and> (status response \<noteq> 401 \<longrightarrow> discover_endpoints self reply1 = Inr m1 \<longrightarrow>
             get_auth_server_metadata self reply2 = Inr m2 \<longrightarrow>
             fst (run_complete_flow py_str sha256 rnd1 rnd2 rnd3
                    reply1 reply2 (Inr response) reply4 reply5 self)
               = Inl (Exception (''Failed to store API key: '' @ str_nat (status response))))
        \<and> (status response \<noteq> 401 \<longrightarrow> discover_endpoints self reply1 = Inr m1 \<longrightarrow>
             get_auth_server_metadata self reply2 = Inr m2 \<longrightarrow>
             store_api_key self ''demo-twenty-api-key-12345'' ''https://api.twenty.com'' reply3
               = Inr b \<longrightarrow>
             fst (run_complete_flow py_str sha256 rnd1 rnd2 rnd3
                    reply1 reply2 reply3 (Inr response) reply5 self)
               = Inl (Exception (''Failed to get metadata: '' @ str_nat (status response)))))
     \<and> (status response \<noteq> 401 \<longrightarrow> status response \<noteq> 400 \<longrightarrow>
          text_body response = Inr result \<longrightarrow>
          make_mcp_request self (Inr response) = Inr (Some result))
     \<and> (status response = 400 \<longrightarrow> json_body response = Inr err \<longrightarrow>
          dict_get err ''error'' = Inr v \<longrightarrow> v \<noteq> Some (JStr ''No API key configured'') \<longrightarrow>
          text_body response = Inr result \<longrightarrow>
          make_mcp_request self (Inr response) = Inr (Some result))
     \<and> (status response = 400 \<longrightarrow> json_body response = Inr err \<longrightarrow>
          dict_get err ''error'' = Inr (Some (JStr ''No API key configured'')) \<longrightarrow>
          make_mcp_request self (Inr response) = Inr None)"
proof (intro conjI impI)
  assume "status response \<noteq> 401" "status response \<noteq> 400" "text_body response = Inr result"
  then show "make_mcp_request self (Inr response) = Inr (Some result)"
    using make_mcp_request_other [OF assms] by (simp add: mcp_result_def)
next
  assume "status response = 400" "json_body response = Inr err" "dict_get err ''error'' = Inr v"
    "v \<noteq> Some (JStr ''No API key configured'')" "text_body response = Inr result"
  then show "make_mcp_request self (Inr response) = Inr (Some result)"
    using make_mcp_request_400_other [OF assms, of response err v] by (simp add: mcp_result_def)
next
  assume "status response = 400" "json_body response = Inr err"
    "dict_get err ''error'' = Inr (Some (JStr ''No API key configured''))"
  then show "make_mcp_request self (Inr response) = Inr None"
    by (rule make_mcp_request_400_no_key [OF assms])
next
  assume h: "400 \<le> status response"
  note d = discover_endpoints_not_ok [OF assms h]
  note g = get_auth_server_metadata_not_ok [OF assms h]
  show "discover_endpoints self (Inr response)
      = Inl (Exception (''Discovery failed: '' @ str_nat (status response)))"
    by (rule d)
  show "get_auth_server_metadata self (Inr response)
      = Inl (Exception (''Auth server discovery failed: '' @ str_nat (status response)))"
    by (rule g)
  show "fst (run_complete_flow py_str sha256 rnd1 rnd2 rnd3
        (Inr response) reply2 reply3 reply4 reply5 self)
      = Inl (Exception (''Discovery failed: '' @ str_nat (status response)))"
    by (rule run_aborts_discover [OF d])
  show "fst (run_complete_flow py_str sha256 rnd1 rnd2 rnd3
        reply1 (Inr response) reply3 reply4 reply5 self)
      = Inl (Exception (''Auth server discovery failed: '' @ str_nat (status response)))"
    if "discover_endpoints self reply1 = Inr m1"
    by (rule run_aborts_metadata [OF that g])
  assume n: "status response \<noteq> 401"
  note k = store_api_key_not_ok [OF assms h n]
  note m = get_api_key_metadata_not_ok [OF assms h n]
  show "store_api_key self api_key base_url (Inr response)
      = Inl (Exception (''Failed to store API key: '' @ str_nat (status response)))"
    by (rule k)
  show "get_api_key_metadata self (Inr response)
      = Inl (Exception (''Failed to get metadata: '' @ str_nat (status response)))"
    by (rule m)
  show "fst (run_complete_flow py_str sha256 rnd1 rnd2 rnd3
        reply1 reply2 (Inr response) reply4 reply5 self)
      = Inl (Exception (''Failed to store API key: '' @ str_nat (status response)))"
    if "discover_endpoints self reply1 = Inr m1" "get_auth_server_metadata self reply2 = Inr m2"
    by (rule run_aborts_store [OF that k])
  show "fst (run_complete_flow py_str sha256 rnd1 rnd2 rnd3
        reply1 reply2 reply3 (Inr response) reply5 self)
      = Inl (Exception (''Failed to get metadata: '' @ str_nat (status response)))"
    if "discover_endpoints self reply1 = Inr m1" "get_auth_server_metadata self reply2 = Inr m2"
      "store_api_key self ''demo-twenty-api-key-12345'' ''https://api.twenty.com'' reply3 = Inr b"
    by (rule run_aborts_key_metadata [OF that m])
qed

lemma str_nat_500: "str_nat 500 = ''500''"
  by (simp add: str_nat.simps)

theorem error_status_raises_witness:
  "discover_endpoints (init_client\<lparr>session := Some ClientSession\<rparr>)
       (Inr \<lparr>status = 500, json_body = Inl JSONDecodeError,
             text_body = Inr ''Internal Server Error''\<rparr>)
     = Inl (Exception ''Discovery failed: 500'')
   \<and> store_api_key (init_client\<lparr>session := Some ClientSession\<rparr>)
       ''demo-twenty-api-key-12345'' ''https://api.twenty.com''
       (Inr \<lparr>status = 500, json_body = Inl JSONDecodeError,
             text_body = Inr ''Internal Server Error''\<rparr>)
     = Inl (Exception ''Failed to store API key: 500'')
   \<and> make_mcp_request (init_client\<lparr>session := Some ClientSession\<rparr>)
       (Inr \<lparr>status = 500, json_body = Inl JSONDecodeError,
             text_body = Inr ''Internal Server Error''\<rparr>)
     = Inr (Some ''Internal Server Error'')
   \<and> make_mcp_request (init_client\<lparr>session := Some ClientSession\<rparr>)
       (Inr \<lparr>status = 400, json_body = Inr (JObj [(''error'', JStr ''Invalid request'')]),
             text_body = Inr ''Invalid request body''\<rparr>)
     = Inr (Some ''Invalid request body'')
   \<and> make_mcp_request (init_client\<lparr>session := Some ClientSession\<rparr>)
       (Inr \<lparr>status = 400, json_body = Inr (JObj [(''error'', JStr ''No API key configured'')]),
             text_body = Inr ''No API key configured''\<rparr>)
     = Inr None
   \<and> fst (run_complete_flow (\<lambda>v. []) (\<lambda>bs. bs) [1, 2, 3] [4, 5] [6]
       (Inr \<lparr>status = 200,
             json_body = Inr (JObj [(''resource'', JStr ''r''),
                                    (''authorization_servers'', JArr [JStr ''a''])]),
             text_body = Inr []\<rparr>)
       (Inr \<lparr>status = 500, json_body = Inl JSONDecodeError,
             text_body = Inr ''Internal Server Error''\<rparr>)
       (Inl (ClientError ''unused'')) (Inl (ClientError ''unused'')) (Inl (ClientError ''unused''))
       (init_client\<lparr>session := Some ClientSession\<rparr>))
     = Inl (Exception ''Auth server discovery failed: 500'')"
proof -
  let ?c = "init_client\<lparr>session := Some ClientSession\<rparr>"
  let ?r = "\<lparr>status = 500, json_body = Inl JSONDecodeError,
      text_body = Inr ''Internal Server Error''\<rparr>"
  let ?good = "Inr \<lparr>status = 200,
      json_body = Inr (JObj [(''resource'', JStr ''r''),
                             (''authorization_servers'', JArr [JStr ''a''])]),
      text_body = Inr []\<rparr>"
  have 1: "session ?c = Some ClientSession" by simp
  have 2: "400 \<le> status ?r" by simp
  have 3: "status ?r \<noteq> 401" "status ?r \<noteq> 400"
    "text_body ?r = Inr ''Internal Server Error''" by simp_all
  have 4: "discover_endpoints ?c ?good
      = Inr (JObj [(''resource'', JStr ''r''), (''authorization_servers'', JArr [JStr ''a''])])"
    by (simp add: discover_endpoints_def request_def ok_def item_def)
  note raises = error_status_raises [OF 1, where response = ?r and ?reply1.0 = ?good
      and api_key = "''demo-twenty-api-key-12345''" and base_url = "''https://api.twenty.com''"
      and py_str = "\<lambda>v. []" and ?sha256.0 = "\<lambda>bs. bs"
      and ?rnd1.0 = "[1, 2, 3]" and ?rnd2.0 = "[4, 5]" and ?rnd3.0 = "[6]"
      and ?reply3.0 = "Inl (ClientError ''unused'')" and ?reply4.0 = "Inl (ClientError ''unused'')"
      and ?reply5.0 = "Inl (ClientError ''unused'')", THEN conjunct1, rule_format, OF 2]
  have a1: "discover_endpoints ?c (Inr ?r) = Inl (Exception ''Discovery failed: 500'')"
    using raises [THEN conjunct1] by (simp add: str_nat_500)
  have a2: "store_api_key ?c ''demo-twenty-api-key-12345'' ''https://api.twenty.com'' (Inr ?r)
      = Inl (Exception ''Failed to store API key: 500'')"
    using raises [THEN conjunct2, THEN conjunct2, THEN conjunct1, rule_format, OF 3(1),
        THEN conjunct1]
    by (simp add: str_nat_500)
  have a3: "make_mcp_request ?c (Inr ?r) = Inr (Some ''Internal Server Error'')"
    by (rule error_status_raises [OF 1, THEN conjunct2, THEN conjunct1, rule_format, OF 3])
  have a4: "fst (run_complete_flow (\<lambda>v. []) (\<lambda>bs. bs) [1, 2, 3] [4, 5] [6] ?good (Inr ?r)
        (Inl (ClientError ''unused'')) (Inl (ClientError ''unused''))
        (Inl (ClientError ''unused'')) ?c)
      = Inl (Exception ''Auth server discovery failed: 500'')"
    using raises [THEN conjunct2, THEN conjunct2, THEN conjunct2, THEN conjunct2,
        THEN conjunct1, rule_format, OF 4]
    by (simp add: str_nat_500)
  let ?e = "JObj [(''error'', JStr ''Invalid request'')]"
  let ?r400 = "\<lparr>status = 400, json_body = Inr ?e, text_body = Inr ''Invalid request body''\<rparr>"
  have 5: "status ?r400 = 400" "json_body ?r400 = Inr ?e"
    "dict_get ?e ''error'' = Inr (Some (JStr ''Invalid request''))"
    "Some (JStr ''Invalid request'') \<noteq> Some (JStr ''No API key configured'')"
    "text_body ?r400 = Inr ''Invalid request body''" by simp_all
  have b: "make_mcp_request ?c (Inr ?r400) = Inr (Some ''Invalid request body'')"
    by (rule error_status_raises [OF 1, THEN conjunct2, THEN conjunct2, THEN conjunct1,
          rule_format, OF 5])
  let ?k = "JObj [(''error'', JStr ''No API key configured'')]"
  let ?r400k = "\<lparr>status = 400, json_body = Inr ?k, text_body = Inr ''No API key configured''\<rparr>"
  have 6: "status ?r400k = 400" "json_body ?r400k = Inr ?k"
    "dict_get ?k ''error'' = Inr (Some (JStr ''No API key configured''))" by simp_all
  have c: "make_mcp_request ?c (Inr ?r400k) = Inr None"
    by (rule error_status_raises [OF 1, THEN conjunct2, THEN conjunct2, THEN conjunct2,
          rule_format, OF 6])
  from a1 a2 a3 b c a4 show ?thesis by (simp only: simp_thms)
qed

section \<open>The authorization URL of the flow\<close>

lemma quote_plus_Nil [simp]: "quote_plus [] = []"
  by (simp add: quote_plus_def encode_utf8_def)

lemma quote_plus_Cons_ascii:
  assumes "(of_char c :: nat) < 128"
  shows "quote_plus (c # s) =
     (if c \<in> set unreserved then [c]
      else if c = CHR '' '' then ''+''
      else [CHR ''%'', upper_hex_digit (of_char c div 16), upper_hex_digit (of_char c mod 16)])
     @ quote_plus s"
proof -
  have "encode_char c = [byte_of_char c]"
    using assms by (simp add: encode_char_def byte_of_char_def)
  then have "quote_plus (c # s) = quote_byte (byte_of_char c) @ quote_plus s"
    by (simp add: quote_plus_def encode_utf8_def)
  with assms show ?thesis
    by (simp add: quote_byte_def)
qed

lemma unreserved_ascii: "c \<in> set unreserved \<Longrightarrow> (of_char c :: nat) < 128"
  by (auto simp add: unreserved_def)

lemma quote_plus_safe: "set s \<subseteq> set unreserved \<Longrightarrow> quote_plus s = s"
  by (induction s) (simp_all add: quote_plus_Cons_ascii unreserved_ascii)

lemma urlsafe_unreserved: "set urlsafe_alphabet \<subseteq> set unreserved"
  by (simp add: urlsafe_alphabet_def unreserved_def)

lemma hex_unreserved: "set ''0123456789abcdef'' \<subseteq> set unreserved"
  by (simp add: unreserved_def)

lemma quote_plus_base64url_nopad: "quote_plus (base64url_nopad bs) = base64url_nopad bs"
  using set_base64url_nopad [of bs] urlsafe_unreserved by (intro quote_plus_safe) blast

lemma quote_plus_hex: "quote_plus (hex bs) = hex bs"
  using set_hex [of bs] hex_unreserved by (intro quote_plus_safe) blast

lemma REDIRECT_URI_eq: "REDIRECT_URI = ''http://localhost:8080/callback''"
  by (simp add: REDIRECT_URI_def CLIENT_PORT_def str_nat.simps)

lemma quote_plus_keys:
  "quote_plus ''response_type'' = ''response_type''"
  "quote_plus ''code'' = ''code''"
  "quote_plus ''client_id'' = ''client_id''"
  "quote_plus ''YOUR_CLIENT_ID'' = ''YOUR_CLIENT_ID''"
  "quote_plus ''redirect_uri'' = ''redirect_uri''"
  "quote_plus ''scope'' = ''scope''"
  "quote_plus ''code_challenge'' = ''code_challenge''"
  "quote_plus ''code_challenge_method'' = ''code_challenge_method''"
  "quote_plus ''S256'' = ''S256''"
  "quote_plus ''state'' = ''state''"
  by (rule quote_plus_safe, simp add: unreserved_def)+

lemma quote_plus_redirect_uri:
  "quote_plus ''http://localhost:8080/callback'' = ''http%3A%2F%2Flocalhost%3A8080%2Fcallback''"
  by (simp add: quote_plus_Cons_ascii unreserved_def upper_hex_digit_def)

lemma quote_plus_scope:
  "quote_plus ''twenty:read twenty:write'' = ''twenty%3Aread+twenty%3Awrite''"
  by (simp add: quote_plus_Cons_ascii unreserved_def upper_hex_digit_def)

lemma urlencode_auth_params:
  "urlencode
     [(''response_type'', ''code''),
      (''client_id'', ''YOUR_CLIENT_ID''),
      (''redirect_uri'', REDIRECT_URI),
      (''scope'', ''twenty:read twenty:write''),
      (''code_challenge'', base64url_nopad digest),
      (''code_challenge_method'', ''S256''),
      (''state'', hex rnd)]
   = ''response_type=code&client_id=YOUR_CLIENT_ID''
     @ ''&redirect_uri=http%3A%2F%2Flocalhost%3A8080%2Fcallback''
     @ ''&scope=twenty%3Aread+twenty%3Awrite''
     @ ''&code_challenge='' @ base64url_nopad digest
     @ ''&code_challenge_method=S256''
     @ ''&state='' @ hex rnd"
  by (simp add: urlencode_def quote_plus_keys quote_plus_redirect_uri quote_plus_scope
      quote_plus_base64url_nopad quote_plus_hex REDIRECT_URI_eq)

text \<open>
  Claim C7.  Whenever the metadata has an \<open>authorization_endpoint\<close>, the URL that
  \<^verbatim>\<open>start_auth_flow\<close> builds is that endpoint, a \<open>?\<close>, and the URL encoding of exactly
  the seven parameters \<open>response_type=code\<close>, \<open>client_id\<close>, \<open>redirect_uri\<close>, \<open>scope\<close> with
  the value \<open>twenty:read twenty:write\<close>, \<open>code_challenge\<close> with the challenge that the
  call of \<^verbatim>\<open>generate_pkce\<close> returned, \<open>code_challenge_method=S256\<close> and \<open>state\<close> with the
  token that the call of \<^verbatim>\<open>generate_state\<close> returned.  The last conjunct spells the
  encoded query out.  (Without the endpoint the function raises before a URL exists.)
\<close>

theorem start_auth_flow_url:
  assumes "subscript auth_server_metadata ''authorization_endpoint'' = Inr endpoint"
  shows "\<exists>pkce_params self1 challenge state' self2 auth_url token self3.
      generate_pkce sha256 rnd1 self = (Inr pkce_params, self1)
    \<and> item pkce_params ''code_challenge'' = Inr challenge
    \<and> generate_state rnd2 self1 = (state', self2)
    \<and> start_auth_flow py_str sha256 rnd1 rnd2 rnd3 auth_server_metadata self
        = (Inr (auth_url, token), self3)
    \<and> auth_url = format_field py_str endpoint @ ''?'' @ urlencode
        [(''response_type'', ''code''),
         (''client_id'', ''YOUR_CLIENT_ID''),
         (''redirect_uri'', ''http://localhost:8080/callback''),
         (''scope'', ''twenty:read twenty:write''),
         (''code_challenge'', challenge),
         (''code_challenge_method'', ''S256''),
         (''state'', state')]
    \<and> auth_url = format_field py_str endpoint
        @ ''?response_type=code&client_id=YOUR_CLIENT_ID''
        @ ''&redirect_uri=http%3A%2F%2Flocalhost%3A8080%2Fcallback''
        @ ''&scope=twenty%3Aread+twenty%3Awrite''
        @ ''&code_challenge='' @ challenge
        @ ''&code_challenge_method=S256''
        @ ''&state='' @ state'"
proof -
  let ?v = "base64url_nopad rnd1"
  let ?ch = "base64url_nopad (sha256 (encode_utf8 ?v))"
  let ?params = "[(''code_verifier'', ?v), (''code_challenge'', ?ch),
      (''code_challenge_method'', ''S256'')]"
  let ?self1 = "self\<lparr>code_verifier := Some ?v\<rparr>"
  let ?self2 = "?self1\<lparr>state := Some (hex rnd2)\<rparr>"
  let ?query = "urlencode
     [(''response_type'', ''code''),
      (''client_id'', ''YOUR_CLIENT_ID''),
      (''redirect_uri'', REDIRECT_URI),
      (''scope'', ''twenty:read twenty:write''),
      (''code_challenge'', ?ch),
      (''code_challenge_method'', ''S256''),
      (''state'', hex rnd2)]"
  have p: "generate_pkce sha256 rnd1 self = (Inr ?params, ?self1)"
    by (rule generate_pkce_eq)
  have i: "item ?params ''code_challenge'' = Inr ?ch"
    by (simp add: item_def)
  have g: "generate_state rnd2 ?self1 = (hex rnd2, ?self2)"
    by (simp add: generate_state_def Let_def)
  have f: "start_auth_flow py_str sha256 rnd1 rnd2 rnd3 auth_server_metadata self
      = (Inr (format_field py_str endpoint @ ''?'' @ ?query, ''mock_access_token_'' @ hex rnd3),
         ?self2\<lparr>access_token := Some (''mock_access_token_'' @ hex rnd3)\<rparr>)"
    using start_auth_flow_eq [OF assms, of py_str sha256 rnd1 rnd2 rnd3 self] .
  have q: "format_field py_str endpoint @ ''?'' @ ?query
      = format_field py_str endpoint @ ''?'' @ urlencode
        [(''response_type'', ''code''),
         (''client_id'', ''YOUR_CLIENT_ID''),
         (''redirect_uri'', ''http://localhost:8080/callback''),
         (''scope'', ''twenty:read twenty:write''),
         (''code_challenge'', ?ch),
         (''code_challenge_method'', ''S256''),
         (''state'', hex rnd2)]"
    by (simp only: REDIRECT_URI_eq)
  have u: "format_field py_str endpoint @ ''?'' @ ?query = format_field py_str endpoint
        @ ''?response_type=code&client_id=YOUR_CLIENT_ID''
        @ ''&redirect_uri=http%3A%2F%2Flocalhost%3A8080%2Fcallback''
        @ ''&scope=twenty%3Aread+twenty%3Awrite''
        @ ''&code_challenge='' @ ?ch
        @ ''&code_challenge_method=S256''
        @ ''&state='' @ hex rnd2"
    by (simp only: urlencode_auth_params) simp
  from p i g f q u show ?thesis by blast
qed

lemma base64url_nopad_example:
  "base64url_nopad [1, 2, 3] = ''AQID''"
  "base64url_nopad (take 4 (encode_utf8 ''AQID'')) = ''QVFJRA''"
  by (simp_all add: url_char_def urlsafe_alphabet_def encode_utf8_def encode_char_def)

lemma hex_example: "hex [4, 5] = ''0405''"
  by (simp add: hex_def hex_digit_def)

theorem start_auth_flow_url_witness:
  "\<exists>token self3.
     start_auth_flow (\<lambda>v. []) (\<lambda>bs. take 4 bs) [1, 2, 3] [4, 5] [255]
       (JObj [(''authorization_endpoint'', JStr ''https://a/authorize'')]) init_client
     = (Inr (''https://a/authorize?response_type=code&client_id=YOUR_CLIENT_ID''
             @ ''&redirect_uri=http%3A%2F%2Flocalhost%3A8080%2Fcallback''
             @ ''&scope=twenty%3Aread+twenty%3Awrite''
             @ ''&code_challenge=QVFJRA&code_challenge_method=S256&state=0405'', token),
        self3)"
proof -
  let ?m = "JObj [(''authorization_endpoint'', JStr ''https://a/authorize'')]"
  have a: "subscript ?m ''authorization_endpoint'' = Inr (JStr ''https://a/authorize'')"
    by (simp add: item_def)
  from start_auth_flow_url [OF a, of "\<lambda>bs. take 4 bs" "[1, 2, 3]" init_client "[4, 5]"
      "\<lambda>v. []" "[255]"]
  obtain pkce_params self1 challenge state' self2 auth_url token self3
    where p: "generate_pkce (\<lambda>bs. take 4 bs) [1, 2, 3] init_client = (Inr pkce_params, self1)"
      and i: "item pkce_params ''code_challenge'' = Inr challenge"
      and g: "generate_state [4, 5] self1 = (state', self2)"
      and f: "start_auth_flow (\<lambda>v. []) (\<lambda>bs. take 4 bs) [1, 2, 3] [4, 5] [255] ?m init_client
          = (Inr (auth_url, token), self3)"
      and u: "auth_url = format_field (\<lambda>v. []) (JStr ''https://a/authorize'')
        @ ''?response_type=code&client_id=YOUR_CLIENT_ID''
        @ ''&redirect_uri=http%3A%2F%2Flocalhost%3A8080%2Fcallback''
        @ ''&scope=twenty%3Aread+twenty%3Awrite''
        @ ''&code_challenge='' @ challenge
        @ ''&code_challenge_method=S256''
        @ ''&state='' @ state'"
    by blast
  have "generate_pkce (\<lambda>bs. take 4 bs) [1, 2, 3] init_client =
      (Inr [(''code_verifier'', ''AQID''), (''code_challenge'', ''QVFJRA''),
            (''code_challenge_method'', ''S256'')],
       init_client\<lparr>code_verifier := Some ''AQID''\<rparr>)"
    by (simp only: generate_pkce_eq base64url_nopad_example)
  with p have "pkce_params = [(''code_verifier'', ''AQID''), (''code_challenge'', ''QVFJRA''),
      (''code_challenge_method'', ''S256'')]"
    by simp
  with i have "challenge = ''QVFJRA''"
    by (simp add: item_def)
  moreover from g have "state' = ''0405''"
    by (simp add: generate_state_def Let_def hex_example)
  ultimately have "auth_url = ''https://a/authorize?response_type=code&client_id=YOUR_CLIENT_ID''
             @ ''&redirect_uri=http%3A%2F%2Flocalhost%3A8080%2Fcallback''
             @ ''&scope=twenty%3Aread+twenty%3Awrite''
             @ ''&code_challenge=QVFJRA&code_challenge_method=S256&state=0405''"
    using u by simp
  with f show ?thesis by blast
qed

section \<open>Distinct draws\<close>

lemma split_high_low:
  fixes x y x' y' k :: nat
  assumes "y < k" "y' < k" "x * k + y = x' * k + y'"
  shows "x = x' \<and> y = y'"
proof -
  from assms(1,2) have "(x * k + y) div k = x" "(x' * k + y') div k = x'"
    "(x * k + y) mod k = y" "(x' * k + y') mod k = y'"
    by simp_all
  with assms(3) show ?thesis by metis
qed

lemma join_div_mod:
  fixes n m k :: nat
  assumes "n div k = m div k" "n mod k = m mod k"
  shows "n = m"
  using assms by (metis div_mult_mod_eq)

lemma sextets_inj:
  fixes a b c a' b' c' :: nat
  assumes "b < 256" "c < 256" "b' < 256" "c' < 256"
    and 1: "a div 4 = a' div 4"
    and 2: "a mod 4 * 16 + b div 16 = a' mod 4 * 16 + b' div 16"
    and 3: "b mod 16 * 4 + c div 64 = b' mod 16 * 4 + c' div 64"
    and 4: "c mod 64 = c' mod 64"
  shows "a = a' \<and> b = b' \<and> c = c'"
proof -
  have "b div 16 < 16" "b' div 16 < 16" "c div 64 < 4" "c' div 64 < 4"
    using assms(1-4) by simp_all
  with 2 3 have "a mod 4 = a' mod 4" "b div 16 = b' div 16"
    "b mod 16 = b' mod 16" "c div 64 = c' div 64"
    using split_high_low [of "b div 16" 16 "b' div 16" "a mod 4" "a' mod 4"]
      split_high_low [of "c div 64" 4 "c' div 64" "b mod 16" "b' mod 16"]
    by simp_all
  with 1 4 show ?thesis
    using join_div_mod [of a 4 a'] join_div_mod [of b 16 b'] join_div_mod [of c 64 c']
    by simp
qed

lemma url_char_inj:
  assumes "i < 64" "j < 64" "url_char i = url_char j"
  shows "i = j"
proof -
  have d: "distinct urlsafe_alphabet" by (simp add: urlsafe_alphabet_def)
  from assms have "urlsafe_alphabet ! i = urlsafe_alphabet ! j"
    by (simp add: url_char_def)
  with assms(1,2) show "i = j"
    by (simp add: nth_eq_iff_index_eq [OF d] length_urlsafe_alphabet)
qed

lemma sextet_bounds:
  fixes a b :: nat
  assumes "a < 256" "b < 256"
  shows "a div 4 < 64" "a mod 4 * 16 + b div 16 < 64" "a mod 16 * 4 + b div 64 < 64"
    "a mod 64 < 64"
proof -
  show "a div 4 < 64" "a mod 64 < 64" using assms by simp_all
  have "a mod 4 < 4" "b div 16 < 16" "a mod 16 < 16" "b div 64 < 4" using assms by simp_all
  then show "a mod 4 * 16 + b div 16 < 64" "a mod 16 * 4 + b div 64 < 64" by linarith+
qed

lemma url_block_inj:
  fixes a b c a' b' c' :: nat
  assumes bounds: "a < 256" "b < 256" "c < 256" "a' < 256" "b' < 256" "c' < 256"
    and 1: "url_char (a div 4) = url_char (a' div 4)"
    and 2: "url_char (a mod 4 * 16 + b div 16) = url_char (a' mod 4 * 16 + b' div 16)"
    and 3: "url_char (b mod 16 * 4 + c div 64) = url_char (b' mod 16 * 4 + c' div 64)"
    and 4: "url_char (c mod 64) = url_char (c' mod 64)"
  shows "a = a' \<and> b = b' \<and> c = c'"
proof -
  have "a div 4 = a' div 4"
    using 1 sextet_bounds(1) [of a b] sextet_bounds(1) [of a' b'] bounds
    by (intro url_char_inj) simp_all
  moreover have "a mod 4 * 16 + b div 16 = a' mod 4 * 16 + b' div 16"
    using 2 sextet_bounds(2) [of a b] sextet_bounds(2) [of a' b'] bounds
    by (intro url_char_inj) simp_all
  moreover have "b mod 16 * 4 + c div 64 = b' mod 16 * 4 + c' div 64"
    using 3 sextet_bounds(3) [of b c] sextet_bounds(3) [of b' c'] bounds
    by (intro url_char_inj) simp_all
  moreover have "c mod 64 = c' mod 64"
    using 4 by (intro url_char_inj) simp_all
  ultimately show ?thesis
    using bounds by (intro sextets_inj) simp_all
qed

lemma unat_byte_eq: "unat (a :: byte) = unat b \<Longrightarrow> a = b"
  by (simp add: word_unat_eq_iff)

lemma base64url_nopad_inj:
  "length xs = length ys \<Longrightarrow> base64url_nopad xs = base64url_nopad ys \<Longrightarrow> xs = ys"
proof (induction xs arbitrary: ys rule: base64url_nopad.induct)
  case 1
  then show ?case by simp
next
  case (2 a)
  then obtain a' where ys: "ys = [a']" by (cases ys) auto
  with 2 have "unat a = unat a' \<and> (0::nat) = 0 \<and> (0::nat) = 0"
    using unat_byte_bound [of a] unat_byte_bound [of a']
    by (intro url_block_inj) simp_all
  with ys show ?case by (simp add: unat_byte_eq)
next
  case (3 a b)
  then obtain a' b' where ys: "ys = [a', b']"
    by (cases ys; cases "tl ys") auto
  with 3 have "unat a = unat a' \<and> unat b = unat b' \<and> (0::nat) = 0"
    using unat_byte_bound [of a] unat_byte_bound [of a']
      unat_byte_bound [of b] unat_byte_bound [of b']
    by (intro url_block_inj) simp_all
  with ys show ?case by (simp add: unat_byte_eq)
next
  case (4 a b c rest)
  from "4.prems"(1) obtain a' b' c' rest' where ys: "ys = a' # b' # c' # rest'"
    and len: "length rest = length rest'"
    by (cases ys; cases "tl ys"; cases "tl (tl ys)") auto
  with "4.prems"(2) have heads:
    "url_char (unat a div 4) = url_char (unat a' div 4)"
    "url_char (unat a mod 4 * 16 + unat b div 16) = url_char (unat a' mod 4 * 16 + unat b' div 16)"
    "url_char (unat b mod 16 * 4 + unat c div 64) = url_char (unat b' mod 16 * 4 + unat c' div 64)"
    "url_char (unat c mod 64) = url_char (unat c' mod 64)"
    and tails: "base64url_nopad rest = base64url_nopad rest'"
    by simp_all
  have "unat a = unat a' \<and> unat b = unat b' \<and> unat c = unat c'"
    using heads unat_byte_bound [of a] unat_byte_bound [of a']
      unat_byte_bound [of b] unat_byte_bound [of b']
      unat_byte_bound [of c] unat_byte_bound [of c']
    by (intro url_block_inj) simp_all
  moreover from "4.IH" [OF len tails] have "rest = rest'" .
  ultimately show ?case using ys by (simp add: unat_byte_eq)
qed

text \<open>
  Two calls of \<^verbatim>\<open>generate_pkce\<close> with different 32-byte draws return different
  verifiers, and each returned challenge is \<open>base64url_nopad\<close> of the digest of its own
  verifier.  Two challenges are equal exactly when the two digests are (which have the
  same length for SHA-256), so whether the challenges differ as well is the question
  whether the digest function separates the two verifiers.
\<close>

lemma verifier_distinct:
  assumes "length rnd1 = 32" "length rnd2 = 32" "rnd1 \<noteq> rnd2"
  shows "\<exists>v1 v2 c1 c2 s1 s2.
      generate_pkce sha256 rnd1 self1 =
        (Inr [(''code_verifier'', v1), (''code_challenge'', c1),
              (''code_challenge_method'', ''S256'')], s1)
    \<and> generate_pkce sha256 rnd2 self2 =
        (Inr [(''code_verifier'', v2), (''code_challenge'', c2),
              (''code_challenge_method'', ''S256'')], s2)
    \<and> v1 \<noteq> v2
    \<and> c1 = base64url_nopad (sha256 (encode_utf8 v1))
    \<and> c2 = base64url_nopad (sha256 (encode_utf8 v2))"
  using assms base64url_nopad_inj [of rnd1 rnd2] by (auto simp add: generate_pkce_eq)

lemma challenge_distinct_iff:
  assumes "length d1 = length d2"
  shows "base64url_nopad d1 = base64url_nopad d2 \<longleftrightarrow> d1 = d2"
  using assms base64url_nopad_inj [of d1 d2] by blast

lemma replicate_2: "replicate 2 x = [x, x]"
  by (simp add: numeral_2_eq_2)

lemma urlsafe_b64encode_example:
  "decode_utf8 (urlsafe_b64encode [0xfb, 0xff]) = Inr ''-_8=''"
  "decode_utf8 (urlsafe_b64encode [0xfb, 0xff, 0xfe, 0x00]) = Inr ''-__-AA==''"
  by (simp_all add: decode_urlsafe_b64encode b64_padding_def url_char_def urlsafe_alphabet_def
      replicate_2)

end
